theory Spec2Isabelle
  imports Complex_Main "HOL-Library.Word" "HOL-Library.Monad_Syntax"
begin

unbundle bit_operations_syntax

section \<open>Speech Analysis Assistant: capture state machines, analysis flows, PDF text, WAV encoder\<close>

text \<open>
  The repository holds two implementations of the same capture-and-analyse page:
  \<^item> \<open>Home\<close> in \<^verbatim>\<open>src/app/page.tsx\<close>, which calls \<open>analyze\<close> (\<^verbatim>\<open>ai/flows/analyze.ts\<close>,
    schemas in \<^verbatim>\<open>ai/flows/schemas.ts\<close>);
  \<^item> \<open>SpeechAnalysisClient\<close> in \<^verbatim>\<open>components/speech-analysis-client.tsx\<close>, which calls
    \<open>analyzeSpeech\<close> (\<^verbatim>\<open>ai/flows/analyze-speech.ts\<close>) and renders through
    \<open>AnalysisDashboard\<close>, \<open>TranscriptionDisplay\<close> and \<open>generatePdfReport\<close>.
  Component state (the \<open>useState\<close> cells and the refs) is a record; a handler is a function
  from the state before to the state after. Two extra fields of each record are the trace of
  what the handler did to the outside: the notices raised with \<open>toast\<close>, and the requests
  handed to the remote analysis call. Fields of \<open>Home\<close> that share a name with a field of
  the client carry the prefix \<open>h_\<close>, those of the client \<open>c_\<close>.
\<close>

subsection \<open>JavaScript strings\<close>

text \<open>A string is truthy when it is not empty.\<close>

definition truthy :: "string \<Rightarrow> bool" where
  "truthy s = (s \<noteq> [])"

text \<open>
  \<open>String.prototype.trim\<close> strips white space and line terminators at both ends. The
  model's strings are lists of 8-bit code units, read as the code points U+0000 to U+00FF.
  The white space and line terminators of ECMAScript in that range are tab (U+0009), line
  feed (U+000A), vertical tab (U+000B), form feed (U+000C), carriage return (U+000D), space
  (U+0020) and no-break space (U+00A0); the others (U+1680, U+2000 to U+200A, U+2028,
  U+2029, U+202F, U+205F, U+3000, U+FEFF) lie above the range of the type.
\<close>

definition isWhiteSpace :: "char \<Rightarrow> bool" where
  "isWhiteSpace c =
     (c \<in> set [CHR 0x09, CHR 0x0A, CHR 0x0B, CHR 0x0C, CHR 0x0D, CHR '' '', CHR 0xA0])"

definition trim :: "string \<Rightarrow> string" where
  "trim s = rev (dropWhile isWhiteSpace (rev (dropWhile isWhiteSpace s)))"

definition startsWith :: "string \<Rightarrow> string \<Rightarrow> bool" where
  "startsWith s p = (take (length p) s = p)"

text \<open>\<open>Array.prototype.join\<close>: the separator stands between neighbours only.\<close>

fun join :: "string \<Rightarrow> string list \<Rightarrow> string" where
  "join sep [] = []"
| "join sep [x] = x"
| "join sep (x # y # ys) = x @ sep @ join sep (y # ys)"

subsection \<open>Notices and blobs\<close>

record toast =
  variant :: "string option"
  title :: string
  description :: "string option"

text \<open>A \<open>Blob\<close>; a \<open>File\<close> is a blob with a name (empty for a plain blob).\<close>

record blob =
  blob_name :: string
  blob_type :: string
  blob_data :: "string list"

subsection \<open>Schemas of the first flow (\<^verbatim>\<open>schemas.ts\<close>)\<close>

text \<open>
  \<open>z.number()\<close> is a JavaScript number; the model takes the finite ones as reals.
  \<open>.min(0).max(10)\<close> are inclusive bounds, and the schema has no \<open>.int()\<close>.
\<close>

record EvaluationCriterion =
  score :: real
  evaluation :: string
  feedback :: string

definition EvaluationCriterionSchema :: "EvaluationCriterion \<Rightarrow> bool" where
  "EvaluationCriterionSchema c = (0 \<le> score c \<and> score c \<le> 10)"

record DeliveryCriteria =
  fluency :: EvaluationCriterion
  pacing :: EvaluationCriterion
  clarity :: EvaluationCriterion
  confidence :: EvaluationCriterion
  emotionalTone :: EvaluationCriterion

definition DeliveryCriteriaSchema :: "DeliveryCriteria \<Rightarrow> bool" where
  "DeliveryCriteriaSchema d =
     (EvaluationCriterionSchema (fluency d) \<and> EvaluationCriterionSchema (pacing d) \<and>
      EvaluationCriterionSchema (clarity d) \<and> EvaluationCriterionSchema (confidence d) \<and>
      EvaluationCriterionSchema (emotionalTone d))"

record LanguageCriteria =
  grammar :: EvaluationCriterion
  vocabulary :: EvaluationCriterion
  wordChoice :: EvaluationCriterion
  conciseness :: EvaluationCriterion
  fillerWords :: EvaluationCriterion

definition LanguageCriteriaSchema :: "LanguageCriteria \<Rightarrow> bool" where
  "LanguageCriteriaSchema l =
     (EvaluationCriterionSchema (grammar l) \<and> EvaluationCriterionSchema (vocabulary l) \<and>
      EvaluationCriterionSchema (wordChoice l) \<and> EvaluationCriterionSchema (conciseness l) \<and>
      EvaluationCriterionSchema (fillerWords l))"

record ContentCriteria =
  relevance :: EvaluationCriterion
  organization :: EvaluationCriterion
  accuracy :: EvaluationCriterion
  depth :: EvaluationCriterion
  persuasiveness :: EvaluationCriterion

definition ContentCriteriaSchema :: "ContentCriteria \<Rightarrow> bool" where
  "ContentCriteriaSchema c =
     (EvaluationCriterionSchema (relevance c) \<and> EvaluationCriterionSchema (organization c) \<and>
      EvaluationCriterionSchema (accuracy c) \<and> EvaluationCriterionSchema (depth c) \<and>
      EvaluationCriterionSchema (persuasiveness c))"

record AnalyzeSpeechOutput =
  wordCount :: real
  fillerWordCount :: real
  speechRateWPM :: real
  averagePauseDurationMs :: real
  pitchVariance :: real
  audioDurationSeconds :: real
  totalScore :: EvaluationCriterion
  delivery :: DeliveryCriteria
  language :: LanguageCriteria
  content :: ContentCriteria
  transcription :: "string option"

definition AnalyzeSpeechOutputSchema :: "AnalyzeSpeechOutput \<Rightarrow> bool" where
  "AnalyzeSpeechOutputSchema out =
     (EvaluationCriterionSchema (totalScore out) \<and> DeliveryCriteriaSchema (delivery out) \<and>
      LanguageCriteriaSchema (language out) \<and> ContentCriteriaSchema (content out))"

text \<open>The sixteen criterion values of a result: the total, then the three groups of five.\<close>

definition criteria_of :: "AnalyzeSpeechOutput \<Rightarrow> EvaluationCriterion list" where
  "criteria_of out =
     [totalScore out,
      fluency (delivery out), pacing (delivery out), clarity (delivery out),
      confidence (delivery out), emotionalTone (delivery out),
      grammar (language out), vocabulary (language out), wordChoice (language out),
      conciseness (language out), fillerWords (language out),
      relevance (content out), organization (content out), accuracy (content out),
      depth (content out), persuasiveness (content out)]"

datatype AnalysisMode = interview | presentation | practice

record AnalyzeInput =
  audioDataUri :: "string option"
  in_transcription :: "string option"
  in_mode :: AnalysisMode
  in_question :: "string option"
  in_perfectAnswer :: "string option"

subsection \<open>The first flow (\<^verbatim>\<open>analyze.ts\<close>)\<close>

datatype promptPart = Media string | Text string

text \<open>\<open>promptData\<close> is \<open>{...input, isInterview, isPresentation, isPractice}\<close>.\<close>

record promptData = AnalyzeInput +
  isInterview :: bool
  isPresentation :: bool
  isPractice :: bool

definition mk_promptData :: "AnalyzeInput \<Rightarrow> promptData" where
  "mk_promptData input =
     AnalyzeInput.extend input
       \<lparr>isInterview = (in_mode input = interview),
        isPresentation = (in_mode input = presentation),
        isPractice = (in_mode input = practice)\<rparr>"

definition promptParts :: "AnalyzeInput \<Rightarrow> promptPart list" where
  "promptParts input =
     (case audioDataUri input of
        Some u \<Rightarrow> if truthy u then [Media u] else []
      | None \<Rightarrow> []) @
     (case in_transcription input of
        Some t \<Rightarrow> if truthy t then [Text (''Transcription: '' @ [CHR 0x22] @ t @ [CHR 0x22])] else []
      | None \<Rightarrow> [])"

text \<open>
  The model call \<open>ai.generate\<close> is outside the repository: it is the parameter \<open>gen\<close>.
  \<open>Inl msg\<close> is a thrown error, \<open>Inr None\<close> a response whose \<open>output\<close> is null,
  \<open>Inr (Some out)\<close> a response with an output object.
\<close>

type_synonym 'o generate = "promptPart list \<Rightarrow> promptData \<Rightarrow> string + 'o option"

definition analysisFlow_body :: "AnalyzeSpeechOutput generate \<Rightarrow> AnalyzeInput \<Rightarrow> string + AnalyzeSpeechOutput" where
  "analysisFlow_body gen input =
     (case gen (promptParts input) (mk_promptData input) of
        Inl e \<Rightarrow> Inl e
      | Inr None \<Rightarrow> Inl ''Analysis failed: no output from model.''
      | Inr (Some output) \<Rightarrow> Inr output)"

text \<open>
  \<open>ai.defineFlow\<close> with an \<open>outputSchema\<close> checks what the body returns against the schema
  and throws when it does not conform (the text of that error is the library's).
\<close>

definition schemaError :: string where
  "schemaError = ''Schema validation failed.''"

definition defineFlow :: "('o \<Rightarrow> bool) \<Rightarrow> ('i \<Rightarrow> string + 'o) \<Rightarrow> 'i \<Rightarrow> string + 'o" where
  "defineFlow outputSchema body input =
     (case body input of
        Inl e \<Rightarrow> Inl e
      | Inr output \<Rightarrow> if outputSchema output then Inr output else Inl schemaError)"

definition analyze :: "AnalyzeSpeechOutput generate \<Rightarrow> AnalyzeInput \<Rightarrow> string + AnalyzeSpeechOutput" where
  "analyze gen = defineFlow AnalyzeSpeechOutputSchema (analysisFlow_body gen)"

subsection \<open>\<open>Home\<close> (\<^verbatim>\<open>app/page.tsx\<close>)\<close>

datatype InputMode = live | audio | upload

record home_state =
  isLiveRecording :: bool
  isAudioRecording :: bool
  isAnalyzing :: bool
  h_transcript :: string
  h_analysisResult :: "AnalyzeSpeechOutput option"
  isSupported :: bool
  analysisMode :: AnalysisMode
  inputMode :: InputMode
  h_question :: string
  h_perfectAnswer :: string
  audioUrl :: "string option"
  h_audioBlob :: "blob option"
  audioFile :: "blob option"
  recognitionRef :: bool
  h_mediaRecorderRef :: bool
  h_audioChunks :: "string list"
  h_micPending :: nat
  h_toasts :: "toast list"
  h_calls :: "AnalyzeInput list"

definition home_init :: home_state where
  "home_init =
     \<lparr>isLiveRecording = False, isAudioRecording = False, isAnalyzing = False,
      h_transcript = [], h_analysisResult = None, isSupported = False,
      analysisMode = presentation, inputMode = live, h_question = [], h_perfectAnswer = [],
      audioUrl = None, h_audioBlob = None, audioFile = None, recognitionRef = False,
      h_mediaRecorderRef = False, h_audioChunks = [], h_micPending = 0, h_toasts = [],
      h_calls = []\<rparr>"

definition h_toast :: "toast \<Rightarrow> home_state \<Rightarrow> home_state" where
  "h_toast t s = s\<lparr>h_toasts := h_toasts s @ [t]\<rparr>"

text \<open>The mount effect: \<open>avail\<close> says whether the browser has a \<open>SpeechRecognition\<close>.\<close>

definition h_mount :: "bool \<Rightarrow> home_state \<Rightarrow> home_state" where
  "h_mount avail s =
     (if avail \<and> \<not> recognitionRef s then s\<lparr>recognitionRef := True, isSupported := True\<rparr>
      else s\<lparr>isSupported := False\<rparr>)"

text \<open>
  \<open>recognition.onresult\<close>: the event's results from \<open>resultIndex\<close> on, each with its
  \<open>isFinal\<close> flag and the transcript of its first alternative.
\<close>

definition h_onresult :: "(bool \<times> string) list \<Rightarrow> home_state \<Rightarrow> home_state" where
  "h_onresult results s =
     (let final_transcript = foldl (\<lambda>acc r. if fst r then acc @ snd r else acc) [] results
      in if truthy final_transcript then s\<lparr>h_transcript := h_transcript s @ final_transcript\<rparr>
         else s)"

definition h_onerror :: "string \<Rightarrow> home_state \<Rightarrow> home_state" where
  "h_onerror error s =
     (if error = ''network'' \<or> error = ''no-speech'' \<or> error = ''audio-capture'' then s
      else (h_toast \<lparr>variant = Some ''destructive'', title = ''Speech Recognition Error'',
                     description = Some (''An error occurred: '' @ error)\<rparr> s)
             \<lparr>isLiveRecording := False\<rparr>)"

definition h_onend :: "home_state \<Rightarrow> home_state" where
  "h_onend s = s\<lparr>isLiveRecording := False\<rparr>"

definition handleToggleLiveRecording :: "home_state \<Rightarrow> home_state" where
  "handleToggleLiveRecording s =
     (if \<not> recognitionRef s then s
      else if isLiveRecording s then s\<lparr>isLiveRecording := False\<rparr>
      else s\<lparr>h_transcript := [], h_analysisResult := None, isLiveRecording := True\<rparr>)"

text \<open>
  \<open>handleToggleAudioRecording\<close> is an \<open>async\<close> function with one \<open>await\<close>. What stands
  before the \<open>await\<close> runs within the click: a recording that is running is stopped there;
  otherwise \<open>getUserMedia\<close> is called and the rest of the function is suspended until the
  browser answers. \<open>h_micPending\<close> counts the calls not yet answered; other events can
  take place in between.
\<close>

definition handleToggleAudioRecording :: "home_state \<Rightarrow> home_state" where
  "handleToggleAudioRecording s =
     (if isAudioRecording s then s\<lparr>isAudioRecording := False\<rparr>
      else s\<lparr>h_micPending := Suc (h_micPending s)\<rparr>)"

text \<open>
  The rest of the function, run when \<open>getUserMedia\<close> has answered: \<open>granted\<close> says whether it
  resolved with a stream or rejected (the \<open>catch\<close>).
\<close>

definition handleToggleAudioRecording_resume :: "bool \<Rightarrow> home_state \<Rightarrow> home_state" where
  "handleToggleAudioRecording_resume granted s =
     (if granted then
        s\<lparr>h_mediaRecorderRef := True, h_audioChunks := [], audioUrl := None,
          h_audioBlob := None, audioFile := None, h_analysisResult := None,
          h_transcript := [], isAudioRecording := True\<rparr>
      else h_toast \<lparr>variant = Some ''destructive'', title = ''Microphone Access Denied'',
                    description = Some ''Please allow microphone access to record audio.''\<rparr> s)"

definition h_ondataavailable :: "string \<Rightarrow> home_state \<Rightarrow> home_state" where
  "h_ondataavailable chunk s = s\<lparr>h_audioChunks := h_audioChunks s @ [chunk]\<rparr>"

text \<open>\<open>mediaRecorder.onstop\<close>; \<open>url\<close> is what \<open>URL.createObjectURL\<close> returns.\<close>

definition h_onstop :: "string \<Rightarrow> home_state \<Rightarrow> home_state" where
  "h_onstop url s =
     s\<lparr>audioUrl := Some url,
       h_audioBlob := Some \<lparr>blob_name = [], blob_type = ''audio/wav'', blob_data = h_audioChunks s\<rparr>\<rparr>"

text \<open>\<open>handleFileSelect\<close>: \<open>file\<close> is \<open>event.target.files?.[0]\<close>.\<close>

definition handleFileSelect :: "blob option \<Rightarrow> string \<Rightarrow> home_state \<Rightarrow> home_state" where
  "handleFileSelect file url s =
     (case file of
        None \<Rightarrow> s
      | Some f \<Rightarrow>
          if startsWith (blob_type f) ''audio/'' then
            s\<lparr>audioFile := Some f, audioUrl := Some url, h_audioBlob := None,
              h_transcript := [], h_analysisResult := None\<rparr>
          else h_toast \<lparr>variant = Some ''destructive'', title = ''Invalid File Type'',
                        description = Some ''Please select a valid audio file.''\<rparr> s)"

definition resetStateForMode :: "InputMode \<Rightarrow> home_state \<Rightarrow> home_state" where
  "resetStateForMode m s =
     s\<lparr>inputMode := m, audioUrl := None, h_audioBlob := None, audioFile := None,
       h_transcript := [], h_analysisResult := None\<rparr>"

text \<open>
  \<open>handleAnalyze\<close> of \<open>Home\<close>. \<open>readAsDataURL\<close> is the \<open>FileReader\<close>: \<open>None\<close> is its
  \<open>onerror\<close>, which rejects the awaited promise outside the \<open>try\<close>, so the handler stops
  there with the state as it was. \<open>analyze_call\<close> is the remote call.
\<close>

definition analysisFailed_home :: "string \<Rightarrow> toast" where
  "analysisFailed_home msg =
     \<lparr>variant = Some ''destructive'', title = ''Analysis Failed'',
      description = Some (if truthy msg then msg
                          else ''Could not analyze the speech. Please try again.'')\<rparr>"

definition h_submit :: "(AnalyzeInput \<Rightarrow> string + AnalyzeSpeechOutput) \<Rightarrow> AnalyzeInput \<Rightarrow> home_state \<Rightarrow> home_state" where
  "h_submit analyze_call inputData s =
     (let s1 = s\<lparr>isAnalyzing := True, h_analysisResult := None,
                 h_calls := h_calls s @ [inputData]\<rparr>
      in case analyze_call inputData of
           Inr result \<Rightarrow>
             s1\<lparr>h_analysisResult := Some result,
                h_transcript :=
                  (case transcription result of
                     Some t \<Rightarrow> if truthy t \<and> \<not> truthy (h_transcript s) then t else h_transcript s
                   | None \<Rightarrow> h_transcript s),
                isAnalyzing := False\<rparr>
         | Inl msg \<Rightarrow>
             (h_toast (analysisFailed_home msg) s1)
               \<lparr>h_analysisResult := None, isAnalyzing := False\<rparr>)"

definition h_with_audio :: "(blob \<Rightarrow> string option) \<Rightarrow> (AnalyzeInput \<Rightarrow> string + AnalyzeSpeechOutput) \<Rightarrow> AnalyzeInput \<Rightarrow> blob \<Rightarrow> home_state \<Rightarrow> home_state" where
  "h_with_audio readAsDataURL analyze_call inputData audioSource s =
     (case readAsDataURL audioSource of
        None \<Rightarrow> s
      | Some uri \<Rightarrow> h_submit analyze_call (inputData\<lparr>audioDataUri := Some uri\<rparr>) s)"

definition questionEmpty_interview :: toast where
  "questionEmpty_interview =
     \<lparr>variant = None, title = ''Question is empty.'',
      description = Some ''Please provide the question for interview mode.''\<rparr>"

definition questionEmpty_practice :: toast where
  "questionEmpty_practice =
     \<lparr>variant = None, title = ''Question is empty.'',
      description = Some ''Please provide the question for practice mode.''\<rparr>"

definition perfectAnswerEmpty :: toast where
  "perfectAnswerEmpty =
     \<lparr>variant = None, title = ''Perfect Answer is empty.'',
      description = Some ''Please provide the perfect answer for practice mode.''\<rparr>"

definition speechEmpty :: toast where
  "speechEmpty =
     \<lparr>variant = None, title = ''Your speech is empty.'',
      description = Some ''Please record your speech before analyzing.''\<rparr>"

definition noAudioRecorded :: toast where
  "noAudioRecorded =
     \<lparr>variant = None, title = ''No audio recorded.'',
      description = Some ''Please record an audio file before analyzing.''\<rparr>"

definition noFileSelected :: toast where
  "noFileSelected =
     \<lparr>variant = None, title = ''No file selected.'',
      description = Some ''Please select an audio file before analyzing.''\<rparr>"

definition handleAnalyze_home :: "(blob \<Rightarrow> string option) \<Rightarrow> (AnalyzeInput \<Rightarrow> string + AnalyzeSpeechOutput) \<Rightarrow> home_state \<Rightarrow> home_state" where
  "handleAnalyze_home readAsDataURL analyze_call s =
     (if analysisMode s = interview \<and> \<not> truthy (trim (h_question s)) then
        h_toast questionEmpty_interview s
      else if analysisMode s = practice \<and> \<not> truthy (trim (h_question s)) then
        h_toast questionEmpty_practice s
      else if analysisMode s = practice \<and> \<not> truthy (trim (h_perfectAnswer s)) then
        h_toast perfectAnswerEmpty s
      else
        let inputData =
              \<lparr>audioDataUri = None, in_transcription = None, in_mode = analysisMode s,
               in_question =
                 (if analysisMode s = interview \<or> analysisMode s = practice
                  then Some (h_question s) else None),
               in_perfectAnswer =
                 (if analysisMode s = practice then Some (h_perfectAnswer s) else None)\<rparr>
        in case inputMode s of
             live \<Rightarrow>
               if \<not> truthy (trim (h_transcript s)) then h_toast speechEmpty s
               else h_submit analyze_call (inputData\<lparr>in_transcription := Some (h_transcript s)\<rparr>) s
           | audio \<Rightarrow>
               (case h_audioBlob s of
                  None \<Rightarrow> h_toast noAudioRecorded s
                | Some audioSource \<Rightarrow>
                    h_with_audio readAsDataURL analyze_call inputData audioSource s)
           | upload \<Rightarrow>
               (case audioFile s of
                  None \<Rightarrow> h_toast noFileSelected s
                | Some audioSource \<Rightarrow>
                    h_with_audio readAsDataURL analyze_call inputData audioSource s))"

text \<open>
  The events of \<open>Home\<close>. A click on a control whose \<open>disabled\<close> expression holds does nothing;
  the text area is \<open>readOnly\<close> while live transcription runs. \<open>HMicResult\<close> is the browser's
  answer to a pending \<open>getUserMedia\<close> call.
\<close>

datatype home_event =
    HMount bool
  | HResult "(bool \<times> string) list"
  | HError string
  | HEnd
  | HClickLive
  | HClickAudio
  | HMicResult bool
  | HData string
  | HStop string
  | HFile "blob option" string
  | HTab InputMode
  | HClickAnalyze
  | HSetTranscript string
  | HSetQuestion string
  | HSetPerfectAnswer string
  | HSetAnalysisMode AnalysisMode

definition liveButton_disabled :: "home_state \<Rightarrow> bool" where
  "liveButton_disabled s = (\<not> isSupported s \<or> isAnalyzing s \<or> isAudioRecording s)"

definition audioButton_disabled :: "home_state \<Rightarrow> bool" where
  "audioButton_disabled s = (isAnalyzing s \<or> isLiveRecording s)"

definition analyzeButton_disabled :: "home_state \<Rightarrow> bool" where
  "analyzeButton_disabled s = (isAnalyzing s \<or> isLiveRecording s \<or> isAudioRecording s)"

fun home_step :: "(blob \<Rightarrow> string option) \<Rightarrow> (AnalyzeInput \<Rightarrow> string + AnalyzeSpeechOutput) \<Rightarrow> home_state \<Rightarrow> home_event \<Rightarrow> home_state" where
  "home_step rd an s (HMount avail) = h_mount avail s"
| "home_step rd an s (HResult results) = h_onresult results s"
| "home_step rd an s (HError e) = h_onerror e s"
| "home_step rd an s HEnd = h_onend s"
| "home_step rd an s HClickLive =
     (if liveButton_disabled s then s else handleToggleLiveRecording s)"
| "home_step rd an s HClickAudio =
     (if audioButton_disabled s then s else handleToggleAudioRecording s)"
| "home_step rd an s (HMicResult granted) =
     (if h_micPending s = 0 then s
      else handleToggleAudioRecording_resume granted (s\<lparr>h_micPending := h_micPending s - 1\<rparr>))"
| "home_step rd an s (HData chunk) = h_ondataavailable chunk s"
| "home_step rd an s (HStop url) = h_onstop url s"
| "home_step rd an s (HFile file url) = handleFileSelect file url s"
| "home_step rd an s (HTab m) = resetStateForMode m s"
| "home_step rd an s HClickAnalyze =
     (if analyzeButton_disabled s then s else handleAnalyze_home rd an s)"
| "home_step rd an s (HSetTranscript t) =
     (if isLiveRecording s then s else s\<lparr>h_transcript := t\<rparr>)"
| "home_step rd an s (HSetQuestion q) = s\<lparr>h_question := q\<rparr>"
| "home_step rd an s (HSetPerfectAnswer a) = s\<lparr>h_perfectAnswer := a\<rparr>"
| "home_step rd an s (HSetAnalysisMode m) = s\<lparr>analysisMode := m\<rparr>"

definition home_run :: "(blob \<Rightarrow> string option) \<Rightarrow> (AnalyzeInput \<Rightarrow> string + AnalyzeSpeechOutput) \<Rightarrow> home_event list \<Rightarrow> home_state" where
  "home_run rd an evs = foldl (home_step rd an) home_init evs"

subsection \<open>Schemas of the second flow (\<^verbatim>\<open>analyze-speech.ts\<close>)\<close>

datatype segmentType = default_segment | filler | pause

record HighlightedSegment =
  seg_text :: string
  seg_type :: segmentType

datatype evaluationCategory = Delivery | Language | Content

datatype evaluationCriteria =
    Fluency | Pacing | Clarity | Confidence | EmotionalTone
  | Grammar | Vocabulary | WordChoice | Conciseness | FillerWords
  | Relevance | Organization | Accuracy | Depth | Persuasiveness

record criterionEntry =
  category :: evaluationCategory
  criteria :: evaluationCriteria
  e_score :: real
  e_evaluation :: string
  comparison :: "string option"
  e_feedback :: string

definition criterionEntrySchema :: "criterionEntry \<Rightarrow> bool" where
  "criterionEntrySchema e = (0 \<le> e_score e \<and> e_score e \<le> 10)"

record speechMetadata =
  m_wordCount :: real
  m_fillerWordCount :: real
  m_speechRateWPM :: real
  m_averagePauseDurationMs :: real
  m_pitchVariance :: real
  m_audioDurationSeconds :: "real option"
  paceScore :: real
  clarityScore :: real
  pausePercentage :: real

definition speechMetadataSchema :: "speechMetadata \<Rightarrow> bool" where
  "speechMetadataSchema m =
     (0 \<le> paceScore m \<and> paceScore m \<le> 100 \<and> 0 \<le> clarityScore m \<and> clarityScore m \<le> 100 \<and>
      0 \<le> pausePercentage m \<and> pausePercentage m \<le> 100)"

record SpeechOutput =
  metadata :: speechMetadata
  highlightedTranscription :: "HighlightedSegment list option"
  evaluationCriteria :: "criterionEntry list"
  s_totalScore :: real
  overallAssessment :: string
  suggestedSpeech :: "string option"

definition SpeechOutputSchema :: "SpeechOutput \<Rightarrow> bool" where
  "SpeechOutputSchema out =
     (speechMetadataSchema (metadata out) \<and>
      list_all criterionEntrySchema (evaluationCriteria out) \<and>
      0 \<le> s_totalScore out \<and> s_totalScore out \<le> 100)"

datatype ClientMode = PresentationMode | InterviewMode | PracticeMode

fun mode_name :: "ClientMode \<Rightarrow> string" where
  "mode_name PresentationMode = ''Presentation Mode''"
| "mode_name InterviewMode = ''Interview Mode''"
| "mode_name PracticeMode = ''Practice Mode''"

record AnalyzeSpeechInput =
  speechSample :: string
  s_mode :: ClientMode
  s_question :: "string option"
  s_perfectAnswer :: "string option"

subsection \<open>The second flow\<close>

text \<open>
  The system prompt has two openings, chosen by whether a perfect answer came with the
  request; the model call gets that choice and the prompt parts.
\<close>

type_synonym 'o generate2 = "bool \<Rightarrow> promptPart list \<Rightarrow> string + 'o option"

definition option_truthy :: "string option \<Rightarrow> bool" where
  "option_truthy v = (case v of Some t \<Rightarrow> truthy t | None \<Rightarrow> False)"

definition contextText :: "AnalyzeSpeechInput \<Rightarrow> string" where
  "contextText input =
     ''Context: '' @ mode_name (s_mode input) @
     (case s_question input of
        Some q \<Rightarrow> if truthy q then [CHR 0x0A] @ ''Question: '' @ q else []
      | None \<Rightarrow> []) @
     (case s_perfectAnswer input of
        Some a \<Rightarrow> if truthy a then [CHR 0x0A] @ ''Perfect Answer: '' @ a else []
      | None \<Rightarrow> [])"

definition speechPromptParts :: "AnalyzeSpeechInput \<Rightarrow> promptPart list" where
  "speechPromptParts input =
     [Text (contextText input),
      (if startsWith (speechSample input) ''data:'' then Media (speechSample input)
       else Text (''Speech Sample (Candidate's Answer): '' @ speechSample input))]"

definition analyzeSpeechFlow_body :: "SpeechOutput generate2 \<Rightarrow> AnalyzeSpeechInput \<Rightarrow> string + SpeechOutput" where
  "analyzeSpeechFlow_body gen input =
     (case gen (option_truthy (s_perfectAnswer input)) (speechPromptParts input) of
        Inl e \<Rightarrow> Inl e
      | Inr None \<Rightarrow> Inl ''Analysis failed: no output from model.''
      | Inr (Some output) \<Rightarrow> Inr output)"

definition analyzeSpeech :: "SpeechOutput generate2 \<Rightarrow> AnalyzeSpeechInput \<Rightarrow> string + SpeechOutput" where
  "analyzeSpeech gen = defineFlow SpeechOutputSchema (analyzeSpeechFlow_body gen)"

subsection \<open>\<open>SpeechAnalysisClient\<close> (\<^verbatim>\<open>components/speech-analysis-client.tsx\<close>)\<close>

record client_state =
  c_mode :: ClientMode
  c_question :: string
  c_perfectAnswer :: string
  c_transcript :: string
  isListening :: bool
  isRecording :: bool
  audioURL :: "string option"
  c_audioBlob :: "blob option"
  currentTab :: string
  isLoading :: bool
  c_analysisResult :: "SpeechOutput option"
  isSpeechRecognitionSupported :: bool
  c_recognitionRef :: bool
  c_mediaRecorderRef :: bool
  c_audioChunks :: "string list"
  final_transcript :: string
  c_toasts :: "toast list"
  c_calls :: "AnalyzeSpeechInput list"

definition client_init :: client_state where
  "client_init =
     \<lparr>c_mode = PresentationMode, c_question = [], c_perfectAnswer = [], c_transcript = [],
      isListening = False, isRecording = False, audioURL = None, c_audioBlob = None,
      currentTab = ''live'', isLoading = False, c_analysisResult = None,
      isSpeechRecognitionSupported = False, c_recognitionRef = False,
      c_mediaRecorderRef = False, c_audioChunks = [], final_transcript = [],
      c_toasts = [], c_calls = []\<rparr>"

definition c_toast :: "toast \<Rightarrow> client_state \<Rightarrow> client_state" where
  "c_toast t s = s\<lparr>c_toasts := c_toasts s @ [t]\<rparr>"

definition c_mount :: "bool \<Rightarrow> client_state \<Rightarrow> client_state" where
  "c_mount avail s =
     (if avail then
        s\<lparr>isSpeechRecognitionSupported := True, c_recognitionRef := True, final_transcript := []\<rparr>
      else s)"

text \<open>
  \<open>recognition.onresult\<close>: \<open>final_transcript\<close> lives in the effect's closure and grows
  from event to event; the interim text is local to one event.
\<close>

definition c_onresult :: "(bool \<times> string) list \<Rightarrow> client_state \<Rightarrow> client_state" where
  "c_onresult results s =
     (let acc = foldl (\<lambda>(fin, interim) r. if fst r then (fin @ snd r, interim)
                                          else (fin, interim @ snd r))
                      (final_transcript s, []) results
      in s\<lparr>final_transcript := fst acc, c_transcript := fst acc @ snd acc\<rparr>)"

definition c_onend :: "client_state \<Rightarrow> client_state" where
  "c_onend s = s\<lparr>isListening := False\<rparr>"

definition c_onerror :: "string \<Rightarrow> client_state \<Rightarrow> client_state" where
  "c_onerror error s =
     c_toast \<lparr>variant = Some ''destructive'', title = ''Speech Recognition Error'',
              description = Some (''Error: '' @ error)\<rparr>
       (s\<lparr>isListening := False\<rparr>)"

definition handleToggleListening :: "client_state \<Rightarrow> client_state" where
  "handleToggleListening s =
     (if \<not> c_recognitionRef s then s
      else (if isListening s then s else s\<lparr>c_transcript := []\<rparr>)
             \<lparr>isListening := \<not> isListening s\<rparr>)"

definition stopRecording :: "client_state \<Rightarrow> client_state" where
  "stopRecording s = (if c_mediaRecorderRef s then s\<lparr>isRecording := False\<rparr> else s)"

definition clearAudio :: "client_state \<Rightarrow> client_state" where
  "clearAudio s =
     (let s1 = s\<lparr>c_audioBlob := None, audioURL := None\<rparr>;
          s2 = (if isRecording s then stopRecording s1 else s1)
      in s2\<lparr>c_audioChunks := []\<rparr>)"

definition startRecording :: "bool \<Rightarrow> client_state \<Rightarrow> client_state" where
  "startRecording granted s =
     (if granted then s\<lparr>c_mediaRecorderRef := True, c_audioChunks := [], isRecording := True\<rparr>
      else c_toast \<lparr>variant = Some ''destructive'', title = ''Microphone Error'',
                    description = Some ''Could not access microphone. Please check permissions.''\<rparr> s)"

definition handleToggleRecording :: "bool \<Rightarrow> client_state \<Rightarrow> client_state" where
  "handleToggleRecording granted s =
     (if isRecording s then stopRecording s else startRecording granted (clearAudio s))"

definition c_ondataavailable :: "string \<Rightarrow> client_state \<Rightarrow> client_state" where
  "c_ondataavailable chunk s = s\<lparr>c_audioChunks := c_audioChunks s @ [chunk]\<rparr>"

definition c_onstop :: "string \<Rightarrow> client_state \<Rightarrow> client_state" where
  "c_onstop url s =
     s\<lparr>c_audioBlob := Some \<lparr>blob_name = [], blob_type = ''audio/webm'', blob_data = c_audioChunks s\<rparr>,
       audioURL := Some url\<rparr>"

definition handleFileChange :: "blob option \<Rightarrow> string \<Rightarrow> client_state \<Rightarrow> client_state" where
  "handleFileChange file url s =
     (case file of
        None \<Rightarrow> s
      | Some f \<Rightarrow> (clearAudio s)\<lparr>c_audioBlob := Some f, audioURL := Some url, currentTab := ''upload''\<rparr>)"

text \<open>The \<open>onValueChange\<close> of the tabs: \<open>clearAudio(); setTranscript(""); setCurrentTab(v)\<close>.\<close>

definition onValueChange :: "string \<Rightarrow> client_state \<Rightarrow> client_state" where
  "onValueChange v s = (clearAudio s)\<lparr>c_transcript := [], currentTab := v\<rparr>"

text \<open>
  \<open>handleAnalyze\<close> of the client. The speech sample is taken first (and the recorded or
  uploaded audio read through \<open>fileToDataUri\<close>, whose rejection ends the handler outside
  any \<open>try\<close>), the checks of the analysis mode come after it.
\<close>

definition noTranscription :: toast where
  "noTranscription =
     \<lparr>variant = Some ''destructive'', title = ''No transcription provided.'', description = None\<rparr>"

definition noAudio :: toast where
  "noAudio = \<lparr>variant = Some ''destructive'', title = ''No audio provided.'', description = None\<rparr>"

definition enterQuestion :: toast where
  "enterQuestion =
     \<lparr>variant = Some ''destructive'', title = ''Please enter an interview question.'',
      description = None\<rparr>"

definition enterBoth :: toast where
  "enterBoth =
     \<lparr>variant = Some ''destructive'', title = ''Please enter both question and perfect answer.'',
      description = None\<rparr>"

definition analysisFailed_client :: toast where
  "analysisFailed_client =
     \<lparr>variant = Some ''destructive'', title = ''Analysis Failed'',
      description = Some ''Something went wrong. Please try again.''\<rparr>"

definition c_submit :: "(AnalyzeSpeechInput \<Rightarrow> string + SpeechOutput) \<Rightarrow> string \<Rightarrow> client_state \<Rightarrow> client_state" where
  "c_submit analyze_call sample s =
     (let s1 = s\<lparr>isLoading := True, c_analysisResult := None\<rparr>;
          input =
            \<lparr>speechSample = sample, s_mode = c_mode s,
             s_question = (if truthy (c_question s) then Some (c_question s) else None),
             s_perfectAnswer =
               (if truthy (c_perfectAnswer s) \<and> c_mode s = PracticeMode
                then Some (c_perfectAnswer s) else None)\<rparr>;
          s2 = s1\<lparr>c_calls := c_calls s1 @ [input]\<rparr>
      in case analyze_call input of
           Inr result \<Rightarrow> s2\<lparr>c_analysisResult := Some result, isLoading := False\<rparr>
         | Inl e \<Rightarrow> (c_toast analysisFailed_client s2)\<lparr>isLoading := False\<rparr>)"

definition c_check_mode :: "(AnalyzeSpeechInput \<Rightarrow> string + SpeechOutput) \<Rightarrow> string \<Rightarrow> client_state \<Rightarrow> client_state" where
  "c_check_mode analyze_call sample s =
     (if c_mode s = InterviewMode \<and> \<not> truthy (c_question s) then c_toast enterQuestion s
      else if c_mode s = PracticeMode \<and> (\<not> truthy (c_question s) \<or> \<not> truthy (c_perfectAnswer s))
      then c_toast enterBoth s
      else c_submit analyze_call sample s)"

definition handleAnalyze_client :: "(blob \<Rightarrow> string option) \<Rightarrow> (AnalyzeSpeechInput \<Rightarrow> string + SpeechOutput) \<Rightarrow> client_state \<Rightarrow> client_state" where
  "handleAnalyze_client fileToDataUri analyze_call s =
     (if currentTab s = ''live'' then
        (if \<not> truthy (c_transcript s) then c_toast noTranscription s
         else c_check_mode analyze_call (c_transcript s) s)
      else if currentTab s = ''record'' \<or> currentTab s = ''upload'' then
        (case c_audioBlob s of
           None \<Rightarrow> c_toast noAudio s
         | Some b \<Rightarrow>
             (case fileToDataUri b of
                None \<Rightarrow> s
              | Some uri \<Rightarrow> c_check_mode analyze_call uri s))
      else c_check_mode analyze_call [] s)"

text \<open>
  The events of the client. The live button is disabled only where the browser has no
  speech recognition; the record button has no \<open>disabled\<close> and is shown while no audio URL
  is set; the analyse button is disabled while a request is out.
\<close>

datatype client_event =
    CMount bool
  | CResult "(bool \<times> string) list"
  | CError string
  | CEnd
  | CClickLive
  | CClickRecord bool
  | CData string
  | CStop string
  | CFile "blob option" string
  | CTab string
  | CClickClear
  | CClickAnalyze
  | CSetTranscript string
  | CSetQuestion string
  | CSetPerfectAnswer string
  | CSetMode ClientMode

fun client_step :: "(blob \<Rightarrow> string option) \<Rightarrow> (AnalyzeSpeechInput \<Rightarrow> string + SpeechOutput) \<Rightarrow> client_state \<Rightarrow> client_event \<Rightarrow> client_state" where
  "client_step rd an s (CMount avail) = c_mount avail s"
| "client_step rd an s (CResult results) = c_onresult results s"
| "client_step rd an s (CError e) = c_onerror e s"
| "client_step rd an s CEnd = c_onend s"
| "client_step rd an s CClickLive =
     (if \<not> isSpeechRecognitionSupported s then s else handleToggleListening s)"
| "client_step rd an s (CClickRecord granted) =
     (if audioURL s \<noteq> None then s else handleToggleRecording granted s)"
| "client_step rd an s (CData chunk) = c_ondataavailable chunk s"
| "client_step rd an s (CStop url) = c_onstop url s"
| "client_step rd an s (CFile file url) = handleFileChange file url s"
| "client_step rd an s (CTab v) = onValueChange v s"
| "client_step rd an s CClickClear = (if audioURL s = None then s else clearAudio s)"
| "client_step rd an s CClickAnalyze =
     (if isLoading s then s else handleAnalyze_client rd an s)"
| "client_step rd an s (CSetTranscript t) =
     (if isListening s then s else s\<lparr>c_transcript := t\<rparr>)"
| "client_step rd an s (CSetQuestion q) = s\<lparr>c_question := q\<rparr>"
| "client_step rd an s (CSetPerfectAnswer a) = s\<lparr>c_perfectAnswer := a\<rparr>"
| "client_step rd an s (CSetMode m) = s\<lparr>c_mode := m\<rparr>"

definition client_run :: "(blob \<Rightarrow> string option) \<Rightarrow> (AnalyzeSpeechInput \<Rightarrow> string + SpeechOutput) \<Rightarrow> client_event list \<Rightarrow> client_state" where
  "client_run rd an evs = foldl (client_step rd an) client_init evs"

subsection \<open>Rendering the transcription (\<open>TranscriptionDisplay\<close>, \<open>AnalysisDashboard\<close>, \<^verbatim>\<open>lib/pdf.ts\<close>)\<close>

text \<open>
  \<open>TranscriptionDisplay\<close> renders one \<open>span\<close> per segment holding the segment's text and a
  space; the text of the paragraph is the spans' texts in order. The dashboard shows it when
  the result has a non-empty segment array.
\<close>

definition TranscriptionDisplay :: "HighlightedSegment list \<Rightarrow> string" where
  "TranscriptionDisplay segments = concat (map (\<lambda>segment. seg_text segment @ '' '') segments)"

definition dashboard_transcription :: "SpeechOutput \<Rightarrow> string option" where
  "dashboard_transcription data =
     (case highlightedTranscription data of
        None \<Rightarrow> None
      | Some segments \<Rightarrow> if length segments > 0 then Some (TranscriptionDisplay segments) else None)"

text \<open>
  \<open>generatePdfReport\<close>: the \<open>fullText\<close> of the section "Full Transcription", which the
  report hands to the PDF library for line breaking and printing.
\<close>

definition pdf_fullText :: "SpeechOutput \<Rightarrow> string option" where
  "pdf_fullText data =
     (case highlightedTranscription data of
        None \<Rightarrow> None
      | Some segments \<Rightarrow>
          if length segments > 0 then Some (join '' '' (map seg_text segments)) else None)"

subsection \<open>The WAV encoder (\<open>encodeWAV\<close>)\<close>

text \<open>
  An \<open>ArrayBuffer\<close> is a list of bytes, zero when allocated. A \<open>DataView\<close> setter throws a
  \<open>RangeError\<close> when the write would leave the buffer: \<open>None\<close>. The setters take a
  JavaScript number and keep its low bits (\<open>ToUint32\<close>, \<open>ToUint16\<close>, \<open>ToInt16\<close>): the
  caller's number becomes a word of that width. All multi-byte writes are little-endian,
  as the source's third argument \<open>true\<close> asks.
\<close>

type_synonym byte = "8 word"

definition write_bytes :: "nat \<Rightarrow> byte list \<Rightarrow> byte list \<Rightarrow> byte list option" where
  "write_bytes offset bs buf =
     (if offset + length bs \<le> length buf
      then Some (take offset buf @ bs @ drop (offset + length bs) buf)
      else None)"

definition setUint8 :: "nat \<Rightarrow> byte \<Rightarrow> byte list \<Rightarrow> byte list option" where
  "setUint8 offset v buf = write_bytes offset [v] buf"

definition setUint16 :: "nat \<Rightarrow> 16 word \<Rightarrow> byte list \<Rightarrow> byte list option" where
  "setUint16 offset v buf = write_bytes offset [ucast v, ucast (drop_bit 8 v)] buf"

definition setInt16 :: "nat \<Rightarrow> 16 word \<Rightarrow> byte list \<Rightarrow> byte list option" where
  "setInt16 offset v buf = write_bytes offset [ucast v, ucast (drop_bit 8 v)] buf"

definition setUint32 :: "nat \<Rightarrow> 32 word \<Rightarrow> byte list \<Rightarrow> byte list option" where
  "setUint32 offset v buf =
     write_bytes offset
       [ucast v, ucast (drop_bit 8 v), ucast (drop_bit 16 v), ucast (drop_bit 24 v)] buf"

definition getUint32 :: "nat \<Rightarrow> byte list \<Rightarrow> 32 word option" where
  "getUint32 offset buf =
     (if offset + 4 \<le> length buf
      then Some (ucast (buf ! offset) OR push_bit 8 (ucast (buf ! (offset + 1))) OR
                 push_bit 16 (ucast (buf ! (offset + 2))) OR
                 push_bit 24 (ucast (buf ! (offset + 3))))
      else None)"

fun writeString :: "nat \<Rightarrow> string \<Rightarrow> byte list \<Rightarrow> byte list option" where
  "writeString offset [] buf = Some buf"
| "writeString offset (c # cs) buf =
     do { buf' \<leftarrow> setUint8 offset (of_nat (of_char c)) buf;
          writeString (offset + 1) cs buf' }"

text \<open>
  One sample: clamped to \<open>[-1, 1]\<close>, scaled by \<open>0x8000\<close> below zero and by \<open>0x7FFF\<close>
  otherwise, cut towards zero and stored as a 16-bit two's complement word. Samples are
  the finite values of a \<open>Float32Array\<close>, taken as reals.
\<close>

definition toInt16 :: "real \<Rightarrow> 16 word" where
  "toInt16 v = word_of_int (if v < 0 then \<lceil>v\<rceil> else \<lfloor>v\<rfloor>)"

definition pcm16 :: "real \<Rightarrow> 16 word" where
  "pcm16 x = (let s = max (- 1) (min 1 x) in toInt16 (if s < 0 then s * 32768 else s * 32767))"

fun pcm_chunk :: "nat \<Rightarrow> real list \<Rightarrow> byte list \<Rightarrow> (nat \<times> byte list) option" where
  "pcm_chunk offset [] buf = Some (offset, buf)"
| "pcm_chunk offset (x # xs) buf =
     do { buf' \<leftarrow> setInt16 offset (pcm16 x) buf;
          pcm_chunk (offset + 2) xs buf' }"

fun floatTo16BitPCM :: "nat \<Rightarrow> real list list \<Rightarrow> byte list \<Rightarrow> byte list option" where
  "floatTo16BitPCM offset [] buf = Some buf"
| "floatTo16BitPCM offset (c # cs) buf =
     do { (offset', buf') \<leftarrow> pcm_chunk offset c buf;
          floatTo16BitPCM offset' cs buf' }"

definition totalSamples :: "real list list \<Rightarrow> nat" where
  "totalSamples samples = foldl (\<lambda>acc val. acc + length val) 0 samples"

record wav_blob =
  wav_type :: string
  wav_bytes :: "byte list"

text \<open>
  \<open>encodeWAV\<close>. With no chunk, \<open>samples[0].length\<close> reads a property of \<open>undefined\<close> and
  throws: \<open>None\<close>. The sample rate is a non-negative whole number.
\<close>

definition encodeWAV :: "real list list \<Rightarrow> nat \<Rightarrow> wav_blob option" where
  "encodeWAV samples sampleRate =
     (case samples of
        [] \<Rightarrow> None
      | first # _ \<Rightarrow>
          do { let buffer = replicate (44 + length samples * 2 * length first) (0 :: byte);
               let total = totalSamples samples;
               v \<leftarrow> writeString 0 ''RIFF'' buffer;
               v \<leftarrow> setUint32 4 (of_nat (36 + total * 2)) v;
               v \<leftarrow> writeString 8 ''WAVE'' v;
               v \<leftarrow> writeString 12 ''fmt '' v;
               v \<leftarrow> setUint32 16 16 v;
               v \<leftarrow> setUint16 20 1 v;
               v \<leftarrow> setUint16 22 1 v;
               v \<leftarrow> setUint32 24 (of_nat sampleRate) v;
               v \<leftarrow> setUint32 28 (of_nat (sampleRate * 2)) v;
               v \<leftarrow> setUint16 32 2 v;
               v \<leftarrow> setUint16 34 16 v;
               v \<leftarrow> writeString 36 ''data'' v;
               v \<leftarrow> setUint32 40 (of_nat (total * 2)) v;
               v \<leftarrow> floatTo16BitPCM 44 samples v;
               Some \<lparr>wav_type = ''audio/wav'', wav_bytes = v\<rparr> })"

text \<open>What a reader of the file sees: its length and the two size fields of the header.\<close>

definition wav_length :: "wav_blob option \<Rightarrow> nat option" where
  "wav_length r = (case r of None \<Rightarrow> None | Some b \<Rightarrow> Some (length (wav_bytes b)))"

definition riff_size :: "wav_blob option \<Rightarrow> nat option" where
  "riff_size r =
     (case r of
        None \<Rightarrow> None
      | Some b \<Rightarrow> (case getUint32 4 (wav_bytes b) of None \<Rightarrow> None | Some w \<Rightarrow> Some (unat w)))"

definition data_size :: "wav_blob option \<Rightarrow> nat option" where
  "data_size r =
     (case r of
        None \<Rightarrow> None
      | Some b \<Rightarrow> (case getUint32 40 (wav_bytes b) of None \<Rightarrow> None | Some w \<Rightarrow> Some (unat w)))"

text \<open>The layout the encoder produces, byte for byte: the 44-byte header, then the samples.\<close>

definition str_bytes :: "string \<Rightarrow> byte list" where
  "str_bytes str = map (\<lambda>c. of_nat (of_char c)) str"

definition u16le :: "16 word \<Rightarrow> byte list" where
  "u16le v = [ucast v, ucast (drop_bit 8 v)]"

definition u32le :: "32 word \<Rightarrow> byte list" where
  "u32le v = [ucast v, ucast (drop_bit 8 v), ucast (drop_bit 16 v), ucast (drop_bit 24 v)]"

definition wav_header :: "nat \<Rightarrow> nat \<Rightarrow> byte list" where
  "wav_header n sampleRate =
     str_bytes ''RIFF'' @ u32le (of_nat (36 + n * 2)) @ str_bytes ''WAVE'' @
     str_bytes ''fmt '' @ u32le 16 @ u16le 1 @ u16le 1 @ u32le (of_nat sampleRate) @
     u32le (of_nat (sampleRate * 2)) @ u16le 2 @ u16le 16 @ str_bytes ''data'' @
     u32le (of_nat (n * 2))"

definition pcm_bytes :: "real list \<Rightarrow> byte list" where
  "pcm_bytes xs = concat (map (\<lambda>x. u16le (pcm16 x)) xs)"

definition same_length :: "real list list \<Rightarrow> bool" where
  "same_length samples = list_all (\<lambda>c. length c = length (hd samples)) samples"

subsection \<open>The properties, in the words of the specification\<close>

text \<open>
  What is missing at a submission. In \<open>Home\<close> a text that is blank after \<open>trim\<close> counts
  as missing, in the client only the empty text does.
\<close>

definition blank :: "string \<Rightarrow> bool" where
  "blank t = (trim t = [])"

definition home_missing_question :: "home_state \<Rightarrow> bool" where
  "home_missing_question h =
     ((analysisMode h = interview \<or> analysisMode h = practice) \<and> blank (h_question h))"

definition home_missing_reference :: "home_state \<Rightarrow> bool" where
  "home_missing_reference h = (analysisMode h = practice \<and> blank (h_perfectAnswer h))"

definition home_missing_input :: "home_state \<Rightarrow> bool" where
  "home_missing_input h =
     (case inputMode h of
        live \<Rightarrow> blank (h_transcript h)
      | audio \<Rightarrow> h_audioBlob h = None
      | upload \<Rightarrow> audioFile h = None)"

definition home_missing :: "home_state \<Rightarrow> bool" where
  "home_missing h = (home_missing_question h \<or> home_missing_reference h \<or> home_missing_input h)"

text \<open>The notice that belongs to the first thing missing: question, reference answer, input.\<close>

definition home_notice :: "home_state \<Rightarrow> toast" where
  "home_notice h =
     (if home_missing_question h then
        (if analysisMode h = interview then questionEmpty_interview else questionEmpty_practice)
      else if home_missing_reference h then perfectAnswerEmpty
      else (case inputMode h of
              live \<Rightarrow> speechEmpty
            | audio \<Rightarrow> noAudioRecorded
            | upload \<Rightarrow> noFileSelected))"

definition client_missing_input :: "client_state \<Rightarrow> bool" where
  "client_missing_input c =
     (if currentTab c = ''live'' then c_transcript c = []
      else (currentTab c = ''record'' \<or> currentTab c = ''upload'') \<and> c_audioBlob c = None)"

definition client_missing_question :: "client_state \<Rightarrow> bool" where
  "client_missing_question c =
     ((c_mode c = InterviewMode \<or> c_mode c = PracticeMode) \<and> c_question c = [])"

definition client_missing_reference :: "client_state \<Rightarrow> bool" where
  "client_missing_reference c = (c_mode c = PracticeMode \<and> c_perfectAnswer c = [])"

definition client_missing :: "client_state \<Rightarrow> bool" where
  "client_missing c =
     (client_missing_input c \<or> client_missing_question c \<or> client_missing_reference c)"

text \<open>
  The client's notice for the first thing missing: input first, then the analysis mode's
  fields, with one notice for both fields of practice mode.
\<close>

definition client_notice :: "client_state \<Rightarrow> toast" where
  "client_notice c =
     (if client_missing_input c then
        (if currentTab c = ''live'' then noTranscription else noAudio)
      else if c_mode c = InterviewMode then enterQuestion
      else enterBoth)"

text \<open>The local read of the captured audio succeeds (or there is none to read).\<close>

definition client_read_ok :: "(blob \<Rightarrow> string option) \<Rightarrow> client_state \<Rightarrow> bool" where
  "client_read_ok fileToDataUri c =
     (currentTab c = ''live'' \<or>
      (case c_audioBlob c of None \<Rightarrow> True | Some b \<Rightarrow> fileToDataUri b \<noteq> None))"


text \<open>Exactly one of transcription and audio payload is present in a request.\<close>

definition exactly_one_source :: "AnalyzeInput \<Rightarrow> bool" where
  "exactly_one_source i = ((in_transcription i = None) \<noteq> (audioDataUri i = None))"

text \<open>A number is a whole number (\<open>Number.isInteger\<close>).\<close>

definition isInteger :: "real \<Rightarrow> bool" where
  "isInteger x = (of_int \<lfloor>x\<rfloor> = x)"

text \<open>At most one capture path is active.\<close>

definition home_exclusive :: "home_state \<Rightarrow> bool" where
  "home_exclusive h = (\<not> (isLiveRecording h \<and> isAudioRecording h))"

definition client_exclusive :: "client_state \<Rightarrow> bool" where
  "client_exclusive c = (\<not> (isListening c \<and> isRecording c))"

subsection \<open>Sample environments and inputs for the worked examples\<close>

definition reader_ok :: "blob \<Rightarrow> string option" where
  "reader_ok b = Some (''data:'' @ blob_type b @ '';base64,'' @ concat (blob_data b))"

definition reader_fails :: "blob \<Rightarrow> string option" where
  "reader_fails b = None"

definition gen_no_output :: "AnalyzeSpeechOutput generate" where
  "gen_no_output parts data = Inr None"

definition gen2_throws :: "SpeechOutput generate2" where
  "gen2_throws evaluator parts = Inl ''fetch failed''"

definition sample_recording :: blob where
  "sample_recording = \<lparr>blob_name = [], blob_type = ''audio/webm'', blob_data = [''AAAA'']\<rparr>"

definition sample_pdf :: blob where
  "sample_pdf = \<lparr>blob_name = ''notes.pdf'', blob_type = ''application/pdf'', blob_data = [''JVBE'']\<rparr>"

definition sample_criterion :: "real \<Rightarrow> EvaluationCriterion" where
  "sample_criterion x = \<lparr>score = x, evaluation = ''clear'', feedback = ''slow down''\<rparr>"

definition sample_output :: "real \<Rightarrow> AnalyzeSpeechOutput" where
  "sample_output x =
     \<lparr>wordCount = 2, fillerWordCount = 0, speechRateWPM = 120, averagePauseDurationMs = 300,
      pitchVariance = 1, audioDurationSeconds = 1,
      totalScore = sample_criterion x,
      delivery = \<lparr>fluency = sample_criterion 8, pacing = sample_criterion 8,
                  clarity = sample_criterion 8, confidence = sample_criterion 8,
                  emotionalTone = sample_criterion 8\<rparr>,
      language = \<lparr>grammar = sample_criterion 8, vocabulary = sample_criterion 8,
                  wordChoice = sample_criterion 8, conciseness = sample_criterion 8,
                  fillerWords = sample_criterion 8\<rparr>,
      content = \<lparr>relevance = sample_criterion 8, organization = sample_criterion 8,
                 accuracy = sample_criterion 8, depth = sample_criterion 8,
                 persuasiveness = sample_criterion 8\<rparr>,
      transcription = None\<rparr>"

definition sample_entry :: "real \<Rightarrow> criterionEntry" where
  "sample_entry x =
     \<lparr>category = Delivery, criteria = Fluency, e_score = x, e_evaluation = ''clear'',
      comparison = None, e_feedback = ''slow down''\<rparr>"

definition sample_speech_output :: "HighlightedSegment list \<Rightarrow> real \<Rightarrow> SpeechOutput" where
  "sample_speech_output segments x =
     \<lparr>metadata = \<lparr>m_wordCount = 2, m_fillerWordCount = 0, m_speechRateWPM = 120,
                  m_averagePauseDurationMs = 300, m_pitchVariance = 1,
                  m_audioDurationSeconds = None, paceScore = 80, clarityScore = 80,
                  pausePercentage = 10\<rparr>,
      highlightedTranscription = Some segments,
      evaluationCriteria = [sample_entry x],
      s_totalScore = 80, overallAssessment = ''good'', suggestedSpeech = None\<rparr>"

definition hello_world :: "HighlightedSegment list" where
  "hello_world =
     [\<lparr>seg_text = ''Hello'', seg_type = default_segment\<rparr>,
      \<lparr>seg_text = ''world'', seg_type = default_segment\<rparr>]"

definition home_example_missing :: home_state where
  "home_example_missing =
     home_init\<lparr>analysisMode := practice, h_question := ''Why?'', h_perfectAnswer := ''  '',
               h_transcript := ''hello''\<rparr>"

definition client_example_missing :: client_state where
  "client_example_missing = client_init\<lparr>c_mode := InterviewMode, c_transcript := ''hello''\<rparr>"

definition home_example_ready :: home_state where
  "home_example_ready =
     home_init\<lparr>h_transcript := ''hello world'', h_analysisResult := Some (sample_output 7)\<rparr>"

definition home_example_request :: AnalyzeInput where
  "home_example_request =
     \<lparr>audioDataUri = None, in_transcription = Some ''hello world'', in_mode = presentation,
      in_question = None, in_perfectAnswer = None\<rparr>"



definition home_example_recorded :: home_state where
  "home_example_recorded =
     home_init\<lparr>inputMode := audio, audioUrl := Some ''blob:1'',
               h_audioBlob := Some sample_recording, h_transcript := ''old text''\<rparr>"

definition client_example_recorded :: client_state where
  "client_example_recorded =
     client_init\<lparr>currentTab := ''record'', audioURL := Some ''blob:1'',
                 c_audioBlob := Some sample_recording, c_transcript := ''old text''\<rparr>"

section \<open>Switching the acquisition tab\<close>

text \<open>
  C5. For every switch of the acquisition tab, in \<open>Home\<close> (\<open>resetStateForMode\<close>) and in the
  client (the tabs' \<open>onValueChange\<close>), and for any state before it: after the handler the
  transcript is empty, the audio blob and the audio URL are null (in \<open>Home\<close> the uploaded
  file too), and the tab is the one asked for.
\<close>

theorem tab_switch_clears_capture:
  "h_transcript (home_step rd an h (HTab m)) = [] \<and>
   h_audioBlob (home_step rd an h (HTab m)) = None \<and>
   audioUrl (home_step rd an h (HTab m)) = None \<and>
   audioFile (home_step rd an h (HTab m)) = None \<and>
   inputMode (home_step rd an h (HTab m)) = m \<and>
   c_transcript (client_step rd' an' c (CTab v)) = [] \<and>
   c_audioBlob (client_step rd' an' c (CTab v)) = None \<and>
   audioURL (client_step rd' an' c (CTab v)) = None \<and>
   currentTab (client_step rd' an' c (CTab v)) = v"
  by (simp add: resetStateForMode_def onValueChange_def clearAudio_def stopRecording_def Let_def)

text \<open>
  The same at two states that hold a recording and a transcript: after the switch to the
  upload tab both are gone.
\<close>

theorem tab_switch_clears_capture_witness:
  "h_transcript home_example_recorded = ''old text'' \<and>
   h_audioBlob home_example_recorded = Some sample_recording \<and>
   h_transcript (home_step reader_ok (analyze gen_no_output) home_example_recorded (HTab upload)) = [] \<and>
   h_audioBlob (home_step reader_ok (analyze gen_no_output) home_example_recorded (HTab upload)) = None \<and>
   audioUrl (home_step reader_ok (analyze gen_no_output) home_example_recorded (HTab upload)) = None \<and>
   c_transcript client_example_recorded = ''old text'' \<and>
   c_audioBlob client_example_recorded = Some sample_recording \<and>
   c_transcript (client_step reader_ok (analyzeSpeech gen2_throws) client_example_recorded
                   (CTab ''upload'')) = [] \<and>
   c_audioBlob (client_step reader_ok (analyzeSpeech gen2_throws) client_example_recorded
                  (CTab ''upload'')) = None \<and>
   audioURL (client_step reader_ok (analyzeSpeech gen2_throws) client_example_recorded
               (CTab ''upload'')) = None"
proof -
  have "h_transcript home_example_recorded = ''old text''"
    and "h_audioBlob home_example_recorded = Some sample_recording"
    and "c_transcript client_example_recorded = ''old text''"
    and "c_audioBlob client_example_recorded = Some sample_recording"
    by (simp_all add: home_example_recorded_def client_example_recorded_def)
  with tab_switch_clears_capture
         [of reader_ok "analyze gen_no_output" home_example_recorded upload
             reader_ok "analyzeSpeech gen2_throws" client_example_recorded "''upload''"]
  show ?thesis by simp
qed

text \<open>
  What the switch leaves running in the client: a recording that is active when the tab
  changes is stopped by \<open>clearAudio\<close>, and the recorder's \<open>onstop\<close> that follows stores
  its blob and URL again.
\<close>

lemma client_stop_event_after_switch:
  "audioURL (c_onstop url (onValueChange v c)) = Some url \<and>
   c_audioBlob (c_onstop url (onValueChange v c)) \<noteq> None"
  by (simp add: c_onstop_def)

section \<open>Choosing a file\<close>

text \<open>
  \<open>handleFileSelect\<close> of \<open>Home\<close> takes a file whose type starts with \<open>audio/\<close> and
  refuses every other one with a notice, leaving the state as it was.
\<close>

lemma handleFileSelect_audio:
  "startsWith (blob_type f) ''audio/'' \<Longrightarrow>
   handleFileSelect (Some f) url h =
     h\<lparr>audioFile := Some f, audioUrl := Some url, h_audioBlob := None,
       h_transcript := [], h_analysisResult := None\<rparr>"
  by (simp add: handleFileSelect_def)

lemma handleFileSelect_other:
  "\<not> startsWith (blob_type f) ''audio/'' \<Longrightarrow>
   handleFileSelect (Some f) url h =
     h\<lparr>h_toasts := h_toasts h @
        [\<lparr>variant = Some ''destructive'', title = ''Invalid File Type'',
          description = Some ''Please select a valid audio file.''\<rparr>]\<rparr>"
  by (simp add: handleFileSelect_def h_toast_def)

lemma handleFileSelect_accepts_iff:
  "audioFile (handleFileSelect (Some f) url (h\<lparr>audioFile := None\<rparr>)) = Some f
     \<longleftrightarrow> startsWith (blob_type f) ''audio/''"
  by (simp add: handleFileSelect_def h_toast_def)

text \<open>
  C6. Every file chosen in upload mode is taken as the audio payload if and only if its
  MIME type denotes audio, and a file of another type is refused with a notice. The
  client's \<open>handleFileChange\<close> does not look at the type: on the upload tab, the file
  \<open>notes.pdf\<close> of type \<open>application/pdf\<close> becomes the audio blob, gets an audio URL, and no
  notice is raised.
\<close>

theorem client_accepts_non_audio_file:
  "\<not> startsWith (blob_type sample_pdf) ''audio/'' \<and>
   c_audioBlob (handleFileChange (Some sample_pdf) ''blob:1'' (onValueChange ''upload'' client_init))
     = Some sample_pdf \<and>
   audioURL (handleFileChange (Some sample_pdf) ''blob:1'' (onValueChange ''upload'' client_init))
     = Some ''blob:1'' \<and>
   c_toasts (handleFileChange (Some sample_pdf) ''blob:1'' (onValueChange ''upload'' client_init))
     = []"
  by (simp add: handleFileChange_def onValueChange_def clearAudio_def stopRecording_def Let_def
        client_init_def sample_pdf_def startsWith_def)

text \<open>The same file and the same run of events, through the client's step function.\<close>

theorem client_accepts_non_audio_file_witness:
  "c_audioBlob (client_run reader_ok (analyzeSpeech gen2_throws)
                  [CTab ''upload'', CFile (Some sample_pdf) ''blob:1'']) = Some sample_pdf"
  using client_accepts_non_audio_file by (simp add: client_run_def)

section \<open>Speech-recognition errors\<close>

text \<open>
  \<open>recognition.onerror\<close> of \<open>Home\<close>: the three transient errors change nothing; every other
  error raises one notice and ends the live session.
\<close>

lemma h_onerror_transient:
  "e = ''network'' \<or> e = ''no-speech'' \<or> e = ''audio-capture'' \<Longrightarrow> h_onerror e h = h"
  by (auto simp add: h_onerror_def)

lemma h_onerror_fatal:
  "e \<noteq> ''network'' \<Longrightarrow> e \<noteq> ''no-speech'' \<Longrightarrow> e \<noteq> ''audio-capture'' \<Longrightarrow>
   h_onerror e h =
     h\<lparr>h_toasts := h_toasts h @
          [\<lparr>variant = Some ''destructive'', title = ''Speech Recognition Error'',
            description = Some (''An error occurred: '' @ e)\<rparr>],
       isLiveRecording := False\<rparr>"
  by (simp add: h_onerror_def h_toast_def)

text \<open>
  C7. A transient speech-recognition error (\<open>no-speech\<close>, \<open>network\<close>, \<open>audio-capture\<close>) is
  ignored without a notice and does not interrupt the session; any other error raises a
  notice and stops listening. The client's \<open>recognition.onerror\<close> treats every error as
  fatal: after mounting and starting live transcription, the event \<open>no-speech\<close> ends
  listening and raises the notice "Speech Recognition Error".
\<close>

theorem client_reports_transient_error:
  "isListening (handleToggleListening (c_mount True client_init)) \<and>
   \<not> isListening (c_onerror ''no-speech'' (handleToggleListening (c_mount True client_init))) \<and>
   c_toasts (c_onerror ''no-speech'' (handleToggleListening (c_mount True client_init))) =
     [\<lparr>variant = Some ''destructive'', title = ''Speech Recognition Error'',
       description = Some ''Error: no-speech''\<rparr>]"
  by (simp add: c_onerror_def handleToggleListening_def c_mount_def client_init_def c_toast_def)

text \<open>The same run of events through the client's step function.\<close>

theorem client_reports_transient_error_witness:
  "length (c_toasts (client_run reader_ok (analyzeSpeech gen2_throws)
                       [CMount True, CClickLive, CError ''no-speech''])) = 1"
proof -
  have "client_run reader_ok (analyzeSpeech gen2_throws)
          [CMount True, CClickLive, CError ''no-speech''] =
        c_onerror ''no-speech'' (handleToggleListening (c_mount True client_init))"
    by (simp add: client_run_def c_mount_def)
  with client_reports_transient_error show ?thesis by simp
qed

section \<open>One capture path at a time\<close>

text \<open>
  In \<open>Home\<close> the start button of each capture path is disabled while the other path is
  active: a click on it then changes nothing.
\<close>

lemma home_start_blocked:
  "(isAudioRecording h \<longrightarrow> home_step rd an h HClickLive = h) \<and>
   (isLiveRecording h \<longrightarrow> home_step rd an h HClickAudio = h)"
  by (simp add: liveButton_disabled_def audioButton_disabled_def)

lemma h_submit_flags:
  "isLiveRecording (h_submit an i h) = isLiveRecording h \<and>
   isAudioRecording (h_submit an i h) = isAudioRecording h \<and>
   h_micPending (h_submit an i h) = h_micPending h"
  by (simp add: h_submit_def h_toast_def Let_def split: sum.split)

lemma handleAnalyze_home_flags:
  "isLiveRecording (handleAnalyze_home rd an h) = isLiveRecording h \<and>
   isAudioRecording (handleAnalyze_home rd an h) = isAudioRecording h \<and>
   h_micPending (handleAnalyze_home rd an h) = h_micPending h"
  by (simp add: handleAnalyze_home_def h_with_audio_def h_submit_flags h_toast_def Let_def
        split: InputMode.split option.split)

text \<open>
  While no \<open>getUserMedia\<close> call is pending, every event other than the click on the record
  button keeps at most one path active and leaves no call pending; so does that click
  together with the browser's answer to it.
\<close>

lemma home_step_exclusive_idle:
  assumes "home_exclusive h" and "h_micPending h = 0" and "ev \<noteq> HClickAudio"
  shows "home_exclusive (home_step rd an h ev) \<and> h_micPending (home_step rd an h ev) = 0"
proof (cases ev)
  case HClickAnalyze
  with assms show ?thesis
    by (simp add: home_exclusive_def handleAnalyze_home_flags)
next
  case HClickLive
  with assms show ?thesis
    by (auto simp add: home_exclusive_def liveButton_disabled_def handleToggleLiveRecording_def)
next
  case HClickAudio
  with assms show ?thesis by simp
qed (use assms in \<open>auto simp add: home_exclusive_def h_mount_def h_onresult_def h_onerror_def
       h_onend_def h_ondataavailable_def h_onstop_def handleFileSelect_def resetStateForMode_def
       h_toast_def Let_def split: option.split\<close>)

lemma home_record_click_answered:
  assumes "home_exclusive h" and "h_micPending h = 0"
  shows "home_exclusive (home_step rd an (home_step rd an h HClickAudio) (HMicResult granted)) \<and>
         h_micPending (home_step rd an (home_step rd an h HClickAudio) (HMicResult granted)) = 0"
  using assms
  by (auto simp add: home_exclusive_def audioButton_disabled_def handleToggleAudioRecording_def
        handleToggleAudioRecording_resume_def h_toast_def)

text \<open>
  The guard is read at the click, not when the browser answers. While the permission prompt
  of a click on the record button is open nothing is recording yet, so the live button is
  enabled; live transcription started then, followed by the grant, leaves both paths
  active in \<open>Home\<close> too.
\<close>

lemma home_pending_prompt_race:
  "isLiveRecording (home_run reader_ok (analyze gen_no_output)
      [HMount True, HTab audio, HClickAudio, HTab live, HClickLive, HMicResult True]) \<and>
   isAudioRecording (home_run reader_ok (analyze gen_no_output)
      [HMount True, HTab audio, HClickAudio, HTab live, HClickLive, HMicResult True])"
  by (simp add: home_run_def home_init_def h_mount_def resetStateForMode_def
        audioButton_disabled_def liveButton_disabled_def handleToggleAudioRecording_def
        handleToggleLiveRecording_def handleToggleAudioRecording_resume_def)

text \<open>
  C4. In every reachable state at most one capture path is active: the disabled controls
  keep a second one from starting. The client's controls carry no such guard: its live
  button is disabled only without speech recognition and its record button never. After
  mounting, starting live transcription, switching to the record tab and starting a
  recording (microphone granted), the client is listening and recording at once.
\<close>

theorem client_listens_and_records:
  "isListening (client_run reader_ok (analyzeSpeech gen2_throws)
      [CMount True, CClickLive, CTab ''record'', CClickRecord True]) \<and>
   isRecording (client_run reader_ok (analyzeSpeech gen2_throws)
      [CMount True, CClickLive, CTab ''record'', CClickRecord True])"
  by (simp add: client_run_def client_init_def c_mount_def handleToggleListening_def
        onValueChange_def clearAudio_def stopRecording_def handleToggleRecording_def
        startRecording_def Let_def)

text \<open>So the state reached is not exclusive.\<close>

theorem client_listens_and_records_witness:
  "\<not> client_exclusive (client_run reader_ok (analyzeSpeech gen2_throws)
      [CMount True, CClickLive, CTab ''record'', CClickRecord True])"
  using client_listens_and_records by (simp only: client_exclusive_def not_not)

section \<open>Validation before the remote call\<close>

text \<open>
  With something missing, \<open>handleAnalyze\<close> of \<open>Home\<close> does nothing but raise the notice of
  the first missing thing. The client's handler never calls out either and, unless the
  local read of the captured audio fails first, raises its notice.
\<close>

lemma home_validation:
  assumes "home_missing h"
  shows "handleAnalyze_home rd an h = h_toast (home_notice h) h"
  using assms
  by (auto simp add: handleAnalyze_home_def home_missing_def home_missing_question_def
        home_missing_reference_def home_missing_input_def home_notice_def blank_def truthy_def
        Let_def split: InputMode.splits option.splits)

lemma client_validation_calls:
  assumes "client_missing c"
  shows "c_calls (handleAnalyze_client rd an c) = c_calls c"
  using assms
  by (auto simp add: handleAnalyze_client_def c_check_mode_def client_missing_def
        client_missing_input_def client_missing_question_def client_missing_reference_def
        truthy_def c_toast_def split: option.splits if_splits ClientMode.splits)

lemma client_validation:
  assumes "client_missing c" and "client_read_ok rd c"
  shows "handleAnalyze_client rd an c = c_toast (client_notice c) c"
  using assms
  by (auto simp add: handleAnalyze_client_def c_check_mode_def client_missing_def
        client_missing_input_def client_missing_question_def client_missing_reference_def
        client_read_ok_def client_notice_def
        truthy_def split: option.splits if_splits ClientMode.splits)

text \<open>The notices of one handler's checks differ from each other.\<close>

lemma home_notices_distinct:
  "distinct [questionEmpty_interview, questionEmpty_practice, perfectAnswerEmpty, speechEmpty,
             noAudioRecorded, noFileSelected]"
  by (simp add: questionEmpty_interview_def questionEmpty_practice_def perfectAnswerEmpty_def
        speechEmpty_def noAudioRecorded_def noFileSelected_def)

lemma client_notices_distinct:
  "distinct [noTranscription, noAudio, enterQuestion, enterBoth]"
  by (simp add: noTranscription_def noAudio_def enterQuestion_def enterBoth_def)

text \<open>
  What counts as missing differs between the two handlers. \<open>Home\<close> tests the text after
  \<open>trim\<close>: a question that is only a no-break space is missing. The client tests the text
  itself: a question of two spaces is not missing there and is sent.
\<close>

lemma trim_no_break_space: "trim [CHR 0xA0] = [] \<and> blank [CHR 0xA0]"
  by (simp add: trim_def blank_def isWhiteSpace_def)

lemma home_no_break_space_question:
  "handleAnalyze_home reader_ok (analyze gen_no_output)
     (home_init\<lparr>analysisMode := interview, h_question := [CHR 0xA0],
                 h_transcript := ''hello''\<rparr>) =
   h_toast questionEmpty_interview
     (home_init\<lparr>analysisMode := interview, h_question := [CHR 0xA0],
                 h_transcript := ''hello''\<rparr>)"
  by (simp add: handleAnalyze_home_def home_init_def truthy_def trim_def isWhiteSpace_def)

lemma client_white_space_question_sent:
  "c_calls (handleAnalyze_client reader_ok (analyzeSpeech gen2_throws)
      (client_init\<lparr>c_mode := InterviewMode, c_transcript := ''hello'', c_question := ''  ''\<rparr>)) =
   [\<lparr>speechSample = ''hello'', s_mode = InterviewMode, s_question = Some ''  '',
     s_perfectAnswer = None\<rparr>]"
  by (simp add: handleAnalyze_client_def c_check_mode_def c_submit_def c_toast_def
        client_init_def truthy_def Let_def split: sum.split)

text \<open>
  C1, as amended. A text field (question, reference answer, live transcript) is missing in
  \<open>Home\<close> when it is empty after \<open>trim\<close>, that is empty or white space only, and in the
  client when it is the empty string; audio is missing when no blob (in \<open>Home\<close>, on the
  upload tab, no file) is held. For every submission, in each analysis mode and each of the
  two components: if a field the mode requires is missing (the question in interview and
  practice mode, the reference answer in practice mode) or the captured input is missing
  (no transcript on the live tab, no audio on the record or upload tab), the remote call is
  not invoked. \<open>Home\<close> then raises exactly one notice, that of the first missing thing in
  the order question, reference answer, captured input, and changes nothing else. The
  client raises exactly one notice, that of the first failed check in its order (captured
  input, then the mode's fields), provided the local read of captured audio does not fail
  before the mode's fields are checked. The notices of the checks of one handler are
  pairwise distinct; the client has a single check, and so a single notice, for the two
  fields of practice mode.
\<close>

theorem missing_input_stops_submission:
  "(home_missing h \<longrightarrow>
      handleAnalyze_home rd an h = h_toast (home_notice h) h \<and>
      h_calls (handleAnalyze_home rd an h) = h_calls h) \<and>
   (client_missing c \<longrightarrow> c_calls (handleAnalyze_client rd' an' c) = c_calls c) \<and>
   (client_missing c \<and> client_read_ok rd' c \<longrightarrow>
      handleAnalyze_client rd' an' c = c_toast (client_notice c) c) \<and>
   distinct [questionEmpty_interview, questionEmpty_practice, perfectAnswerEmpty, speechEmpty,
             noAudioRecorded, noFileSelected] \<and>
   distinct [noTranscription, noAudio, enterQuestion, enterBoth]"
  using home_validation [of h rd an] client_validation_calls [of c rd' an']
    client_validation [of c rd' an'] home_notices_distinct client_notices_distinct
  by (simp add: h_toast_def)

text \<open>
  At a practice-mode state of \<open>Home\<close> with a blank reference answer, and at an
  interview-mode state of the client with no question.
\<close>

theorem missing_input_stops_submission_witness:
  "home_missing home_example_missing \<and>
   h_toasts (handleAnalyze_home reader_ok (analyze gen_no_output) home_example_missing) =
     [perfectAnswerEmpty] \<and>
   h_calls (handleAnalyze_home reader_ok (analyze gen_no_output) home_example_missing) = [] \<and>
   client_missing client_example_missing \<and>
   client_read_ok reader_ok client_example_missing \<and>
   c_toasts (handleAnalyze_client reader_ok (analyzeSpeech gen2_throws) client_example_missing) =
     [enterQuestion] \<and>
   c_calls (handleAnalyze_client reader_ok (analyzeSpeech gen2_throws) client_example_missing) = []"
proof -
  have t: "trim ''  '' = []" by (simp add: trim_def isWhiteSpace_def)
  have t': "trim ''Why?'' \<noteq> []" by (simp add: trim_def isWhiteSpace_def)
  have a: "home_missing home_example_missing"
    by (simp add: home_missing_def home_missing_reference_def home_example_missing_def
        home_init_def blank_def t)
  have n: "home_notice home_example_missing = perfectAnswerEmpty"
    by (simp add: home_notice_def home_missing_question_def home_missing_reference_def
        home_example_missing_def home_init_def blank_def t t')
  have b: "client_missing client_example_missing"
    by (simp add: client_missing_def client_missing_question_def client_example_missing_def
        client_init_def)
  have r: "client_read_ok reader_ok client_example_missing"
    by (simp add: client_read_ok_def client_example_missing_def client_init_def)
  have m: "client_notice client_example_missing = enterQuestion"
    by (simp add: client_notice_def client_missing_input_def client_example_missing_def
        client_init_def)
  from missing_input_stops_submission
         [of home_example_missing reader_ok "analyze gen_no_output" client_example_missing
             reader_ok "analyzeSpeech gen2_throws"] a b r
  have "handleAnalyze_home reader_ok (analyze gen_no_output) home_example_missing =
          h_toast (home_notice home_example_missing) home_example_missing"
    and "handleAnalyze_client reader_ok (analyzeSpeech gen2_throws) client_example_missing =
          c_toast (client_notice client_example_missing) client_example_missing"
    by simp_all
  with a b r n m show ?thesis
    by (simp add: h_toast_def c_toast_def home_example_missing_def client_example_missing_def
        home_init_def client_init_def)
qed

text \<open>
  C1 as stated fails in the client. In practice mode, a submission that misses only the
  question and one that misses only the reference answer raise the same notice, so the
  notice does not tell the two apart. And in interview mode with no question, on the upload
  tab with a file whose read fails, the handler stops without any notice.
\<close>

theorem client_practice_notice_shared:
  "c_toasts (handleAnalyze_client reader_ok (analyzeSpeech gen2_throws)
      (client_init\<lparr>c_mode := PracticeMode, c_transcript := ''hello'',
                    c_question := [], c_perfectAnswer := ''ideal''\<rparr>)) = [enterBoth] \<and>
   c_toasts (handleAnalyze_client reader_ok (analyzeSpeech gen2_throws)
      (client_init\<lparr>c_mode := PracticeMode, c_transcript := ''hello'',
                    c_question := ''why'', c_perfectAnswer := []\<rparr>)) = [enterBoth] \<and>
   c_toasts (handleAnalyze_client reader_fails (analyzeSpeech gen2_throws)
      (client_init\<lparr>c_mode := InterviewMode, currentTab := ''upload'',
                    c_audioBlob := Some sample_recording, c_question := []\<rparr>)) = []"
  by (simp add: handleAnalyze_client_def c_check_mode_def client_init_def truthy_def c_toast_def
        reader_fails_def)

section \<open>A failed analysis\<close>



lemma h_submit_calls: "h_calls (h_submit an i h) = h_calls h @ [i]"
  by (simp add: h_submit_def h_toast_def Let_def split: sum.split)


lemma handleAnalyze_home_cases:
  "handleAnalyze_home rd an h = h \<or>
   (\<exists>t. handleAnalyze_home rd an h = h_toast t h) \<or>
   (\<exists>i. handleAnalyze_home rd an h = h_submit an i h)"
  by (auto simp add: handleAnalyze_home_def h_with_audio_def Let_def
        split: InputMode.split option.split)






lemma home_example_call:
  "handleAnalyze_home reader_ok an home_example_ready =
     h_submit an home_example_request home_example_ready"
  by (simp add: handleAnalyze_home_def home_example_ready_def home_example_request_def
      home_init_def truthy_def trim_def isWhiteSpace_def Let_def)





section \<open>The request\<close>

lemma exactly_one_source_home:
  assumes call: "h_calls (handleAnalyze_home rd an h) = h_calls h @ [i]"
  shows "exactly_one_source i"
  using assms
  by (auto simp add: handleAnalyze_home_def h_with_audio_def h_submit_calls h_toast_def Let_def
        exactly_one_source_def split: InputMode.splits option.splits if_splits)

text \<open>Every step of \<open>Home\<close> leaves the log of requests alone or adds one such request.\<close>

lemma home_step_calls:
  "h_calls (home_step rd an h ev) = h_calls h \<or>
   (\<exists>i. h_calls (home_step rd an h ev) = h_calls h @ [i] \<and> exactly_one_source i)"
proof (cases ev)
  case HClickAnalyze
  from handleAnalyze_home_cases [of rd an h] consider
      "handleAnalyze_home rd an h = h"
    | t where "handleAnalyze_home rd an h = h_toast t h"
    | j where "handleAnalyze_home rd an h = h_submit an j h"
    by blast
  then have "h_calls (handleAnalyze_home rd an h) = h_calls h \<or>
      (\<exists>i. h_calls (handleAnalyze_home rd an h) = h_calls h @ [i] \<and> exactly_one_source i)"
  proof cases
    case 1
    then show ?thesis by simp
  next
    case 2
    then show ?thesis by (simp add: h_toast_def)
  next
    case 3
    then have "h_calls (handleAnalyze_home rd an h) = h_calls h @ [j]"
      by (simp add: h_submit_calls)
    with exactly_one_source_home show ?thesis by blast
  qed
  with HClickAnalyze show ?thesis by simp
qed (auto simp add: h_mount_def h_onresult_def h_onerror_def h_onend_def
       handleToggleLiveRecording_def handleToggleAudioRecording_def
       handleToggleAudioRecording_resume_def
       h_ondataavailable_def h_onstop_def handleFileSelect_def resetStateForMode_def
       h_toast_def Let_def split: option.split)

lemma home_run_calls: "list_all exactly_one_source (h_calls (home_run rd an evs))"
proof (induction evs rule: rev_induct)
  case Nil
  show ?case by (simp add: home_run_def home_init_def)
next
  case (snoc ev evs)
  with home_step_calls [of rd an "home_run rd an evs" ev] show ?case
    by (auto simp add: home_run_def)
qed

text \<open>
  C3. Every request that the submission handler of \<open>Home\<close> hands to the remote call (a
  value of the input schema's type, all of whose values the schema accepts) has exactly
  one of the transcription and the audio data URI: from any state, and so for every request
  in the log of any run of events.
\<close>

theorem request_has_one_source:
  "(h_calls (handleAnalyze_home rd an h) = h_calls h @ [i] \<longrightarrow> exactly_one_source i) \<and>
   list_all exactly_one_source (h_calls (home_run rd an evs))"
  using exactly_one_source_home [of rd an h i] home_run_calls [of rd an evs] by blast

text \<open>At the live-tab state with the transcript "hello world".\<close>

theorem request_has_one_source_witness:
  "h_calls (handleAnalyze_home reader_ok (analyze gen_no_output) home_example_ready) =
     h_calls home_example_ready @ [home_example_request] \<and>
   exactly_one_source home_example_request \<and>
   in_transcription home_example_request = Some ''hello world'' \<and>
   audioDataUri home_example_request = None"
proof -
  have a: "h_calls (handleAnalyze_home reader_ok (analyze gen_no_output) home_example_ready) =
      h_calls home_example_ready @ [home_example_request]"
    by (simp add: home_example_call h_submit_calls)
  from request_has_one_source
         [of reader_ok "analyze gen_no_output" home_example_ready home_example_request "[]"] a
  have "exactly_one_source home_example_request" by blast
  with a show ?thesis by (simp add: home_example_request_def)
qed

section \<open>Scores\<close>

lemma criteria_in_range:
  assumes "AnalyzeSpeechOutputSchema out" and "c \<in> set (criteria_of out)"
  shows "0 \<le> score c \<and> score c \<le> 10"
  using assms
  by (auto simp add: AnalyzeSpeechOutputSchema_def DeliveryCriteriaSchema_def
        LanguageCriteriaSchema_def ContentCriteriaSchema_def EvaluationCriterionSchema_def
        criteria_of_def)

lemma entries_in_range:
  assumes "SpeechOutputSchema out" and "e \<in> set (evaluationCriteria out)"
  shows "0 \<le> e_score e \<and> e_score e \<le> 10"
  using assms
  by (auto simp add: SpeechOutputSchema_def criterionEntrySchema_def list_all_iff)

text \<open>
  C8, as amended. For every evaluation criterion value accepted by an output schema (the
  total and the fifteen named criteria of \<^verbatim>\<open>schemas.ts\<close>, and every entry of
  \<open>evaluationCriteria\<close> of \<^verbatim>\<open>analyze-speech.ts\<close>), the score is a number from 0 to 10
  inclusive, whole or not; a result with a criterion whose score lies outside that interval
  fails validation.
\<close>

theorem score_in_range:
  "(AnalyzeSpeechOutputSchema out \<and> c \<in> set (criteria_of out) \<longrightarrow> 0 \<le> score c \<and> score c \<le> 10) \<and>
   (c \<in> set (criteria_of out) \<and> (score c < 0 \<or> 10 < score c) \<longrightarrow> \<not> AnalyzeSpeechOutputSchema out) \<and>
   (SpeechOutputSchema out' \<and> e \<in> set (evaluationCriteria out') \<longrightarrow> 0 \<le> e_score e \<and> e_score e \<le> 10) \<and>
   (e \<in> set (evaluationCriteria out') \<and> (e_score e < 0 \<or> 10 < e_score e) \<longrightarrow> \<not> SpeechOutputSchema out')"
  using criteria_in_range [of out c] entries_in_range [of out' e] by auto

text \<open>
  At results whose total (or single entry) has score 7, which pass, and 11, which fail.
\<close>

theorem score_in_range_witness:
  "AnalyzeSpeechOutputSchema (sample_output 7) \<and>
   sample_criterion 7 \<in> set (criteria_of (sample_output 7)) \<and>
   0 \<le> score (sample_criterion 7) \<and> score (sample_criterion 7) \<le> 10 \<and>
   sample_criterion 11 \<in> set (criteria_of (sample_output 11)) \<and> 10 < score (sample_criterion 11) \<and>
   \<not> AnalyzeSpeechOutputSchema (sample_output 11) \<and>
   SpeechOutputSchema (sample_speech_output hello_world 7) \<and>
   sample_entry 7 \<in> set (evaluationCriteria (sample_speech_output hello_world 7)) \<and>
   0 \<le> e_score (sample_entry 7) \<and> e_score (sample_entry 7) \<le> 10 \<and>
   sample_entry 11 \<in> set (evaluationCriteria (sample_speech_output hello_world 11)) \<and>
   10 < e_score (sample_entry 11) \<and>
   \<not> SpeechOutputSchema (sample_speech_output hello_world 11)"
proof -
  have a: "AnalyzeSpeechOutputSchema (sample_output 7)"
    by (simp add: AnalyzeSpeechOutputSchema_def sample_output_def DeliveryCriteriaSchema_def
        LanguageCriteriaSchema_def ContentCriteriaSchema_def EvaluationCriterionSchema_def
        sample_criterion_def)
  have b: "sample_criterion 7 \<in> set (criteria_of (sample_output 7))"
    by (simp add: criteria_of_def sample_output_def)
  have c: "sample_criterion 11 \<in> set (criteria_of (sample_output 11))"
    by (simp add: criteria_of_def sample_output_def)
  have d: "10 < score (sample_criterion 11)" by (simp add: sample_criterion_def)
  have e: "SpeechOutputSchema (sample_speech_output hello_world 7)"
    by (simp add: SpeechOutputSchema_def sample_speech_output_def speechMetadataSchema_def
        criterionEntrySchema_def sample_entry_def)
  have f: "sample_entry 7 \<in> set (evaluationCriteria (sample_speech_output hello_world 7))"
    by (simp add: sample_speech_output_def)
  have g: "sample_entry 11 \<in> set (evaluationCriteria (sample_speech_output hello_world 11))"
    by (simp add: sample_speech_output_def)
  have h: "10 < e_score (sample_entry 11)" by (simp add: sample_entry_def)
  from a b c d e f g h
    score_in_range [of "sample_output 7" "sample_criterion 7"
      "sample_speech_output hello_world 7" "sample_entry 7"]
    score_in_range [of "sample_output 11" "sample_criterion 11"
      "sample_speech_output hello_world 11" "sample_entry 11"]
  show ?thesis by blast
qed

text \<open>
  C8 as stated fails: the score 7.5 is accepted by the criterion schema and by both output
  schemas, and is not an integer.
\<close>

theorem half_point_score_accepted:
  "EvaluationCriterionSchema (sample_criterion (15 / 2)) \<and>
   AnalyzeSpeechOutputSchema (sample_output (15 / 2)) \<and>
   SpeechOutputSchema (sample_speech_output hello_world (15 / 2)) \<and>
   \<not> isInteger (15 / 2)"
  by (simp add: EvaluationCriterionSchema_def sample_criterion_def AnalyzeSpeechOutputSchema_def
        sample_output_def DeliveryCriteriaSchema_def LanguageCriteriaSchema_def
        ContentCriteriaSchema_def SpeechOutputSchema_def sample_speech_output_def
        speechMetadataSchema_def criterionEntrySchema_def sample_entry_def isInteger_def)

section \<open>The rendered transcription\<close>

lemma length_join:
  "xs \<noteq> [] \<Longrightarrow> length (join sep xs) = length (concat xs) + (length xs - 1) * length sep"
  by (induction sep xs rule: join.induct) simp_all

lemma concat_with_space:
  "xs \<noteq> [] \<Longrightarrow> concat (map (\<lambda>x. x @ '' '') xs) = join '' '' xs @ '' ''"
  by (induction "'' ''" xs rule: join.induct) simp_all

lemma TranscriptionDisplay_join:
  "segments \<noteq> [] \<Longrightarrow>
   TranscriptionDisplay segments = join '' '' (map seg_text segments) @ '' ''"
  using concat_with_space [of "map seg_text segments"]
  by (simp add: TranscriptionDisplay_def comp_def)

text \<open>
  C9, as amended. For every analysis result with a non-empty sequence of highlighted
  segments, the full text of the PDF export is the segments' texts, in order, joined by
  single spaces, and the text the dashboard renders is that text followed by one more
  space. The PDF text is one character longer than the concatenation for every segment
  after the first, so it equals the concatenation exactly when there is one segment; the
  dashboard's text never equals it.
\<close>

theorem rendered_text_joined:
  assumes "highlightedTranscription data = Some segments" and "segments \<noteq> []"
  shows "pdf_fullText data = Some (join '' '' (map seg_text segments)) \<and>
         dashboard_transcription data = Some (join '' '' (map seg_text segments) @ '' '') \<and>
         length (join '' '' (map seg_text segments)) =
           length (concat (map seg_text segments)) + (length segments - 1) \<and>
         (join '' '' (map seg_text segments) = concat (map seg_text segments)
            \<longleftrightarrow> length segments = 1) \<and>
         join '' '' (map seg_text segments) @ '' '' \<noteq> concat (map seg_text segments)"
proof -
  let ?p = "join '' '' (map seg_text segments)"
  let ?c = "concat (map seg_text segments)"
  from assms(2) have len: "length ?p = length ?c + (length segments - 1)"
    using length_join [of "map seg_text segments" "'' ''"] by simp
  have one: "?p = ?c \<longleftrightarrow> length segments = 1"
  proof
    assume "?p = ?c"
    with len have "length segments - 1 = 0" by simp
    with assms(2) show "length segments = 1" by (cases segments) simp_all
  next
    assume "length segments = 1"
    then obtain x where "segments = [x]" by (cases segments) simp_all
    then show "?p = ?c" by simp
  qed
  have ui: "?p @ '' '' \<noteq> ?c"
  proof
    assume "?p @ '' '' = ?c"
    then have "length (?p @ '' '') = length ?c" by simp
    with len show False by simp
  qed
  from assms len one ui show ?thesis
    by (simp add: pdf_fullText_def dashboard_transcription_def TranscriptionDisplay_join)
qed

text \<open>At the two segments "Hello" and "world".\<close>

theorem rendered_text_joined_witness:
  "highlightedTranscription (sample_speech_output hello_world 7) = Some hello_world \<and>
   hello_world \<noteq> [] \<and>
   pdf_fullText (sample_speech_output hello_world 7) = Some (join '' '' (map seg_text hello_world)) \<and>
   length (join '' '' (map seg_text hello_world)) = 11"
proof -
  have a: "highlightedTranscription (sample_speech_output hello_world 7) = Some hello_world"
    by (simp add: sample_speech_output_def)
  have b: "hello_world \<noteq> []" by (simp add: hello_world_def)
  from rendered_text_joined [OF a b] a b show ?thesis
    by (simp add: hello_world_def)
qed

text \<open>
  C9 as stated fails: for the segments "Hello" and "world" the PDF text is "Hello world"
  and the dashboard's is "Hello world " with a trailing space, while the concatenation of
  the segment texts is "Helloworld".
\<close>

theorem rendered_text_has_separators:
  "pdf_fullText (sample_speech_output hello_world 7) = Some ''Hello world'' \<and>
   dashboard_transcription (sample_speech_output hello_world 7) = Some ''Hello world '' \<and>
   concat (map seg_text hello_world) = ''Helloworld''"
  by (simp add: pdf_fullText_def dashboard_transcription_def TranscriptionDisplay_def
        sample_speech_output_def hello_world_def)

section \<open>The WAV encoder\<close>

text \<open>
  Each write of the header lands right behind what is written so far, in a buffer that is
  still zero from there on; so does each sample.
\<close>

lemma u32_roundtrip:
  "(ucast (ucast v :: byte) OR push_bit 8 (ucast (ucast (drop_bit 8 v) :: byte)) OR
    push_bit 16 (ucast (ucast (drop_bit 16 v) :: byte)) OR
    push_bit 24 (ucast (ucast (drop_bit 24 v) :: byte)) :: 32 word) = v"
proof (rule bit_word_eqI)
  fix n :: nat
  assume "n < LENGTH(32)"
  then have n: "n < 32" by simp
  consider "n < 8" | "8 \<le> n" "n < 16" | "16 \<le> n" "n < 24" | "24 \<le> n"
    by linarith
  then show "bit (ucast (ucast v :: byte) OR push_bit 8 (ucast (ucast (drop_bit 8 v) :: byte)) OR
    push_bit 16 (ucast (ucast (drop_bit 16 v) :: byte)) OR
    push_bit 24 (ucast (ucast (drop_bit 24 v) :: byte)) :: 32 word) n = bit v n"
    using n by cases (auto simp add: bit_simps)
qed

lemma write_bytes_fresh:
  "length pre = offset \<Longrightarrow> length bs \<le> m \<Longrightarrow>
   write_bytes offset bs (pre @ replicate m 0) = Some ((pre @ bs) @ replicate (m - length bs) 0)"
  by (simp add: write_bytes_def)

lemma writeString_fresh:
  "length pre = offset \<Longrightarrow> length str \<le> m \<Longrightarrow>
   writeString offset str (pre @ replicate m 0) =
     Some ((pre @ map (\<lambda>c. of_nat (of_char c)) str) @ replicate (m - length str) 0)"
proof (induction str arbitrary: pre offset m)
  case Nil
  then show ?case by simp
next
  case (Cons c cs)
  from Cons.prems have w: "setUint8 offset (of_nat (of_char c)) (pre @ replicate m 0) =
      Some ((pre @ [of_nat (of_char c)]) @ replicate (m - 1) 0)"
    unfolding setUint8_def by (subst write_bytes_fresh) simp_all
  from Cons.prems have "writeString (offset + 1) cs ((pre @ [of_nat (of_char c)]) @ replicate (m - 1) 0) =
      Some (((pre @ [of_nat (of_char c)]) @ map (\<lambda>c. of_nat (of_char c)) cs) @ replicate (m - 1 - length cs) 0)"
    by (intro Cons.IH) simp_all
  with w show ?case by simp
qed

lemma length_pcm_bytes: "length (pcm_bytes xs) = 2 * length xs"
  by (induction xs) (simp_all add: pcm_bytes_def u16le_def)

lemma pcm_bytes_append: "pcm_bytes (xs @ ys) = pcm_bytes xs @ pcm_bytes ys"
  by (simp add: pcm_bytes_def)

lemma pcm_chunk_fresh:
  "length pre = offset \<Longrightarrow> 2 * length xs \<le> m \<Longrightarrow>
   pcm_chunk offset xs (pre @ replicate m 0) =
     Some (offset + 2 * length xs, (pre @ pcm_bytes xs) @ replicate (m - 2 * length xs) 0)"
proof (induction xs arbitrary: pre offset m)
  case Nil
  then show ?case by (simp add: pcm_bytes_def)
next
  case (Cons x xs)
  let ?b = "[ucast (pcm16 x), ucast (drop_bit 8 (pcm16 x))] :: byte list"
  from Cons.prems have w: "setInt16 offset (pcm16 x) (pre @ replicate m 0) =
      Some ((pre @ ?b) @ replicate (m - 2) 0)"
    unfolding setInt16_def by (subst write_bytes_fresh) simp_all
  from Cons.prems have "pcm_chunk (offset + 2) xs ((pre @ ?b) @ replicate (m - 2) 0) =
      Some (offset + 2 + 2 * length xs, ((pre @ ?b) @ pcm_bytes xs) @ replicate (m - 2 - 2 * length xs) 0)"
    by (intro Cons.IH) simp_all
  with w show ?case by (simp add: pcm_bytes_def u16le_def)
qed

lemma totalSamples_foldl: "foldl (\<lambda>acc val. acc + length val) a cs = a + length (concat cs)"
  by (induction cs arbitrary: a) simp_all

lemma totalSamples_concat: "totalSamples cs = length (concat cs)"
  by (simp add: totalSamples_def totalSamples_foldl)

lemma floatTo16BitPCM_fresh:
  "length pre = offset \<Longrightarrow> 2 * totalSamples cs \<le> m \<Longrightarrow>
   floatTo16BitPCM offset cs (pre @ replicate m 0) =
     Some ((pre @ pcm_bytes (concat cs)) @ replicate (m - 2 * totalSamples cs) 0)"
proof (induction cs arbitrary: pre offset m)
  case Nil
  then show ?case by (simp add: pcm_bytes_def totalSamples_concat)
next
  case (Cons c cs)
  from Cons.prems have w: "pcm_chunk offset c (pre @ replicate m 0) =
      Some (offset + 2 * length c, (pre @ pcm_bytes c) @ replicate (m - 2 * length c) 0)"
    by (intro pcm_chunk_fresh) (simp_all add: totalSamples_concat)
  from Cons.prems have "floatTo16BitPCM (offset + 2 * length c) cs ((pre @ pcm_bytes c) @ replicate (m - 2 * length c) 0) =
      Some (((pre @ pcm_bytes c) @ pcm_bytes (concat cs)) @ replicate (m - 2 * length c - 2 * totalSamples cs) 0)"
    by (intro Cons.IH) (simp_all add: totalSamples_concat length_pcm_bytes)
  with w show ?case by (simp add: pcm_bytes_append totalSamples_concat)
qed

lemma same_length_total:
  "\<forall>c \<in> set cs. length c = n \<Longrightarrow> totalSamples cs = length cs * n"
  by (induction cs) (simp_all add: totalSamples_concat)

lemma length_str_bytes [simp]: "length (str_bytes s) = length s"
  by (simp add: str_bytes_def)

lemma length_u16le [simp]: "length (u16le v) = 2"
  by (simp add: u16le_def)

lemma length_u32le [simp]: "length (u32le v) = 4"
  by (simp add: u32le_def)

lemma length_wav_header: "length (wav_header n sr) = 44"
  by (simp add: wav_header_def)

lemma writeString_step:
  "length pre = offset \<Longrightarrow> length str \<le> m \<Longrightarrow> m' = m - length str \<Longrightarrow>
   writeString offset str (pre @ replicate m 0) = Some ((pre @ str_bytes str) @ replicate m' 0)"
  by (simp add: writeString_fresh str_bytes_def)

lemma setUint32_step:
  "length pre = offset \<Longrightarrow> 4 \<le> m \<Longrightarrow> m' = m - 4 \<Longrightarrow>
   setUint32 offset v (pre @ replicate m 0) = Some ((pre @ u32le v) @ replicate m' 0)"
  using write_bytes_fresh [of pre offset "u32le v" m] by (simp add: setUint32_def u32le_def)

lemma setUint16_step:
  "length pre = offset \<Longrightarrow> 2 \<le> m \<Longrightarrow> m' = m - 2 \<Longrightarrow>
   setUint16 offset v (pre @ replicate m 0) = Some ((pre @ u16le v) @ replicate m' 0)"
  using write_bytes_fresh [of pre offset "u16le v" m] by (simp add: setUint16_def u16le_def)

lemma encodeWAV_closed:
  assumes fit: "2 * totalSamples (first # rest) \<le> length (first # rest) * 2 * length first"
  shows "encodeWAV (first # rest) sr =
     Some \<lparr>wav_type = ''audio/wav'',
           wav_bytes = (wav_header (totalSamples (first # rest)) sr @ pcm_bytes (concat (first # rest))) @
             replicate (length (first # rest) * 2 * length first - 2 * totalSamples (first # rest)) 0\<rparr>"
proof -
  define k where "k = length (first # rest) * 2 * length first"
  define t where "t = totalSamples (first # rest)"
  define b1 where "b1 = [] @ str_bytes ''RIFF''"
  define b2 where "b2 = b1 @ u32le (of_nat (36 + t * 2))"
  define b3 where "b3 = b2 @ str_bytes ''WAVE''"
  define b4 where "b4 = b3 @ str_bytes ''fmt ''"
  define b5 where "b5 = b4 @ u32le 16"
  define b6 where "b6 = b5 @ u16le 1"
  define b7 where "b7 = b6 @ u16le 1"
  define b8 where "b8 = b7 @ u32le (of_nat sr)"
  define b9 where "b9 = b8 @ u32le (of_nat (sr * 2))"
  define b10 where "b10 = b9 @ u16le 2"
  define b11 where "b11 = b10 @ u16le 16"
  define b12 where "b12 = b11 @ str_bytes ''data''"
  define b13 where "b13 = b12 @ u32le (of_nat (t * 2))"
  have l1: "length b1 = 4" by (simp add: b1_def)
  have l2: "length b2 = 8" by (simp add: b2_def l1)
  have l3: "length b3 = 12" by (simp add: b3_def l2)
  have l4: "length b4 = 16" by (simp add: b4_def l3)
  have l5: "length b5 = 20" by (simp add: b5_def l4)
  have l6: "length b6 = 22" by (simp add: b6_def l5)
  have l7: "length b7 = 24" by (simp add: b7_def l6)
  have l8: "length b8 = 28" by (simp add: b8_def l7)
  have l9: "length b9 = 32" by (simp add: b9_def l8)
  have l10: "length b10 = 34" by (simp add: b10_def l9)
  have l11: "length b11 = 36" by (simp add: b11_def l10)
  have l12: "length b12 = 40" by (simp add: b12_def l11)
  have l13: "length b13 = 44" by (simp add: b13_def l12)
  have "writeString 0 ''RIFF'' ([] @ replicate (44 + k) 0) =
      Some (([] @ str_bytes ''RIFF'') @ replicate (40 + k) 0)"
    by (rule writeString_step) simp_all
  then have s1: "writeString 0 ''RIFF'' (replicate (44 + k) 0) = Some (b1 @ replicate (40 + k) 0)"
    by (simp only: append_Nil b1_def)
  have s2: "setUint32 4 (of_nat (36 + t * 2)) (b1 @ replicate (40 + k) 0) = Some (b2 @ replicate (36 + k) 0)"
    unfolding b2_def by (rule setUint32_step) (simp_all add: l1)
  have s3: "writeString 8 ''WAVE'' (b2 @ replicate (36 + k) 0) = Some (b3 @ replicate (32 + k) 0)"
    unfolding b3_def by (rule writeString_step) (simp_all add: l2)
  have s4: "writeString 12 ''fmt '' (b3 @ replicate (32 + k) 0) = Some (b4 @ replicate (28 + k) 0)"
    unfolding b4_def by (rule writeString_step) (simp_all add: l3)
  have s5: "setUint32 16 16 (b4 @ replicate (28 + k) 0) = Some (b5 @ replicate (24 + k) 0)"
    unfolding b5_def by (rule setUint32_step) (simp_all add: l4)
  have s6: "setUint16 20 1 (b5 @ replicate (24 + k) 0) = Some (b6 @ replicate (22 + k) 0)"
    unfolding b6_def by (rule setUint16_step) (simp_all add: l5)
  have s7: "setUint16 22 1 (b6 @ replicate (22 + k) 0) = Some (b7 @ replicate (20 + k) 0)"
    unfolding b7_def by (rule setUint16_step) (simp_all add: l6)
  have s8: "setUint32 24 (of_nat sr) (b7 @ replicate (20 + k) 0) = Some (b8 @ replicate (16 + k) 0)"
    unfolding b8_def by (rule setUint32_step) (simp_all add: l7)
  have s9: "setUint32 28 (of_nat (sr * 2)) (b8 @ replicate (16 + k) 0) = Some (b9 @ replicate (12 + k) 0)"
    unfolding b9_def by (rule setUint32_step) (simp_all add: l8)
  have s10: "setUint16 32 2 (b9 @ replicate (12 + k) 0) = Some (b10 @ replicate (10 + k) 0)"
    unfolding b10_def by (rule setUint16_step) (simp_all add: l9)
  have s11: "setUint16 34 16 (b10 @ replicate (10 + k) 0) = Some (b11 @ replicate (8 + k) 0)"
    unfolding b11_def by (rule setUint16_step) (simp_all add: l10)
  have s12: "writeString 36 ''data'' (b11 @ replicate (8 + k) 0) = Some (b12 @ replicate (4 + k) 0)"
    unfolding b12_def by (rule writeString_step) (simp_all add: l11)
  have s13: "setUint32 40 (of_nat (t * 2)) (b12 @ replicate (4 + k) 0) = Some (b13 @ replicate k 0)"
    unfolding b13_def by (rule setUint32_step) (simp_all add: l12)
  have s14: "floatTo16BitPCM 44 (first # rest) (b13 @ replicate k 0) =
      Some ((b13 @ pcm_bytes (concat (first # rest))) @ replicate (k - 2 * t) 0)"
    unfolding t_def by (rule floatTo16BitPCM_fresh) (use fit in \<open>simp_all add: l13 k_def\<close>)
  have h: "b13 = wav_header t sr"
    by (simp add: wav_header_def b13_def b12_def b11_def b10_def b9_def b8_def b7_def b6_def
          b5_def b4_def b3_def b2_def b1_def)
  show ?thesis
    unfolding encodeWAV_def list.case Let_def k_def [symmetric] t_def [symmetric]
    by (simp only: s1 s2 s3 s4 s5 s6 s7 s8 s9 s10 s11 s12 s13 [unfolded h] s14 [unfolded h]
          Option.bind.simps)
qed

lemma same_length_fits:
  assumes "same_length (first # rest)"
  shows "totalSamples (first # rest) = length (first # rest) * length first"
  using assms same_length_total [of "first # rest" "length first"]
  by (simp add: same_length_def list_all_iff)

lemma encodeWAV_same_length:
  assumes "samples \<noteq> []" and "same_length samples"
  shows "encodeWAV samples sr =
     Some \<lparr>wav_type = ''audio/wav'',
           wav_bytes = wav_header (totalSamples samples) sr @ pcm_bytes (concat samples)\<rparr>"
proof -
  from assms(1) obtain first rest where s: "samples = first # rest" by (cases samples) auto
  with assms(2) have t: "totalSamples (first # rest) = length (first # rest) * length first"
    by (simp add: same_length_fits)
  then have "2 * totalSamples (first # rest) \<le> length (first # rest) * 2 * length first"
    by simp
  from encodeWAV_closed [OF this, of sr] t s show ?thesis by simp
qed

lemma getUint32_u32le:
  "length pre = offset \<Longrightarrow> getUint32 offset (pre @ u32le v @ rest) = Some v"
  using u32_roundtrip [of v]
  by (simp add: getUint32_def u32le_def nth_append)

lemma wav_header_riff:
  "getUint32 4 (wav_header n sr @ rest) = Some (of_nat (36 + n * 2))"
proof -
  have "wav_header n sr @ rest =
      str_bytes ''RIFF'' @ u32le (of_nat (36 + n * 2)) @
      (str_bytes ''WAVE'' @
       str_bytes ''fmt '' @ u32le 16 @ u16le 1 @ u16le 1 @ u32le (of_nat sr) @
       u32le (of_nat (sr * 2)) @ u16le 2 @ u16le 16 @ str_bytes ''data'' @
       u32le (of_nat (n * 2)) @ rest)"
    by (simp add: wav_header_def)
  then show ?thesis by (simp only: getUint32_u32le [of "str_bytes ''RIFF''" 4, simplified])
qed

lemma wav_header_data:
  "getUint32 40 (wav_header n sr @ rest) = Some (of_nat (n * 2))"
proof -
  let ?pre = "str_bytes ''RIFF'' @ u32le (of_nat (36 + n * 2)) @ str_bytes ''WAVE'' @
       str_bytes ''fmt '' @ u32le 16 @ u16le 1 @ u16le 1 @ u32le (of_nat sr) @
       u32le (of_nat (sr * 2)) @ u16le 2 @ u16le 16 @ str_bytes ''data''"
  have l: "length ?pre = 40" by simp
  have "wav_header n sr @ rest = ?pre @ u32le (of_nat (n * 2)) @ rest"
    by (simp add: wav_header_def)
  with getUint32_u32le [OF l, of "of_nat (n * 2)" rest] show ?thesis by simp
qed

lemma unat_u32_of_nat: "unat (of_nat k :: 32 word) = k mod 2 ^ 32"
  unfolding unat_of_nat by simp

lemma riff_size_header:
  "riff_size (Some \<lparr>wav_type = ty, wav_bytes = wav_header n sr @ rest\<rparr>) =
     Some ((36 + 2 * n) mod 2 ^ 32)"
proof -
  have "riff_size (Some \<lparr>wav_type = ty, wav_bytes = wav_header n sr @ rest\<rparr>) =
      Some (unat (of_nat (36 + n * 2) :: 32 word))"
    unfolding riff_size_def by (simp only: option.case wav_blob.select_convs wav_header_riff)
  then show ?thesis by (simp only: unat_u32_of_nat mult.commute)
qed

lemma data_size_header:
  "data_size (Some \<lparr>wav_type = ty, wav_bytes = wav_header n sr @ rest\<rparr>) =
     Some ((2 * n) mod 2 ^ 32)"
proof -
  have "data_size (Some \<lparr>wav_type = ty, wav_bytes = wav_header n sr @ rest\<rparr>) =
      Some (unat (of_nat (n * 2) :: 32 word))"
    unfolding data_size_def by (simp only: option.case wav_blob.select_convs wav_header_data)
  then show ?thesis by (simp only: unat_u32_of_nat mult.commute)
qed

lemma encodeWAV_sizes_mod:
  assumes "samples \<noteq> []" and "same_length samples"
  shows "wav_length (encodeWAV samples sr) = Some (44 + 2 * totalSamples samples)"
    and "riff_size (encodeWAV samples sr) = Some ((36 + 2 * totalSamples samples) mod 2 ^ 32)"
    and "data_size (encodeWAV samples sr) = Some ((2 * totalSamples samples) mod 2 ^ 32)"
proof -
  note e = encodeWAV_same_length [OF assms, of sr]
  show "wav_length (encodeWAV samples sr) = Some (44 + 2 * totalSamples samples)"
    by (simp add: e wav_length_def length_wav_header length_pcm_bytes totalSamples_concat)
  show "riff_size (encodeWAV samples sr) = Some ((36 + 2 * totalSamples samples) mod 2 ^ 32)"
    unfolding e by (rule riff_size_header)
  show "data_size (encodeWAV samples sr) = Some ((2 * totalSamples samples) mod 2 ^ 32)"
    unfolding e by (rule data_size_header)
qed

lemma totalSamples_single: "totalSamples [replicate n x] = n"
  by (simp add: totalSamples_def)

lemma same_length_single: "same_length [c]"
  by (simp add: same_length_def)

text \<open>
  C10, as amended. For every non-empty list of chunks that all have the same length, and a
  total number of samples \<open>n\<close> with \<open>36 + 2 n < 2^32\<close>: \<open>encodeWAV\<close> returns a blob of
  \<open>44 + 2 n\<close> bytes whose RIFF size field (the 32-bit little-endian word at byte 4) is
  \<open>36 + 2 n\<close> and whose data size field (at byte 40) is \<open>2 n\<close>. For the empty list of
  chunks it throws.
\<close>

theorem encodeWAV_sizes:
  assumes "samples \<noteq> []" and "same_length samples"
      and "36 + 2 * totalSamples samples < 2 ^ 32"
  shows "wav_length (encodeWAV samples sampleRate) = Some (44 + 2 * totalSamples samples) \<and>
         riff_size (encodeWAV samples sampleRate) = Some (36 + 2 * totalSamples samples) \<and>
         data_size (encodeWAV samples sampleRate) = Some (2 * totalSamples samples) \<and>
         encodeWAV [] sampleRate = None"
  using encodeWAV_sizes_mod [OF assms(1,2), of sampleRate] assms(3)
  by (simp add: encodeWAV_def)

text \<open>At two chunks of two samples each.\<close>

theorem encodeWAV_sizes_witness:
  "[[0, 1 / 2], [1, - 1]] \<noteq> ([] :: real list list) \<and> same_length [[0, 1 / 2], [1, - 1]] \<and>
   36 + 2 * totalSamples [[0, 1 / 2], [1, - 1]] < (2 :: nat) ^ 32 \<and>
   wav_length (encodeWAV [[0, 1 / 2], [1, - 1]] 44100) = Some 52 \<and>
   riff_size (encodeWAV [[0, 1 / 2], [1, - 1]] 44100) = Some 44 \<and>
   data_size (encodeWAV [[0, 1 / 2], [1, - 1]] 44100) = Some 8 \<and>
   encodeWAV [] 44100 = None"
proof -
  have a: "[[0, 1 / 2], [1, - 1]] \<noteq> ([] :: real list list)" by simp
  have b: "same_length [[0, 1 / 2], [1, - 1 :: real]]" by (simp add: same_length_def)
  have t: "totalSamples [[0, 1 / 2], [1, - 1 :: real]] = 4" by (simp add: totalSamples_def)
  have c: "36 + 2 * totalSamples [[0, 1 / 2], [1, - 1 :: real]] < (2 :: nat) ^ 32"
    by (simp add: t)
  from encodeWAV_sizes [OF a b c, of 44100] a b c show ?thesis by (simp add: t)
qed

text \<open>
  C10 as stated fails where the sizes no longer fit the 32-bit fields: for one chunk of
  \<open>2^31\<close> samples the blob has \<open>44 + 2^32\<close> bytes, the RIFF size field holds 36 and
  the data size field 0.
\<close>

theorem encodeWAV_size_field_wraps:
  "wav_length (encodeWAV [replicate (2 ^ 31) 0] 44100) = Some (44 + 2 ^ 32) \<and>
   riff_size (encodeWAV [replicate (2 ^ 31) 0] 44100) = Some 36 \<and>
   data_size (encodeWAV [replicate (2 ^ 31) 0] 44100) = Some 0"
proof -
  let ?s = "[replicate (2 ^ 31) (0 :: real)]"
  have a: "?s \<noteq> []" by (rule list.distinct(2))
  have b: "same_length ?s" by (rule same_length_single)
  have t: "totalSamples ?s = 2 ^ 31" by (rule totalSamples_single)
  have n1: "44 + 2 * (2 :: nat) ^ 31 = 44 + 2 ^ 32" by simp
  have n2: "(36 + 2 * (2 :: nat) ^ 31) mod 2 ^ 32 = 36" by simp
  have n3: "(2 * (2 :: nat) ^ 31) mod 2 ^ 32 = 0" by simp
  from encodeWAV_sizes_mod [OF a b, of 44100] show ?thesis
    by (simp only: t n1 n2 n3 simp_thms)
qed


end
